theory Spec2Isabelle
  imports Complex_Main "HOL-Library.Word"
begin

section \<open>Numbers, vectors and matrices\<close>

text \<open>
  The program computes with IEEE doubles and fixed-size Eigen matrices.  The development
  idealises a double as a \<^typ>\<open>real\<close>: rounding and overflow are not represented.  The one
  IEEE effect that is kept is the result of a division by an exact zero, which in the program
  is an infinity or a NaN and never an error: a quantity computed through such a division is
  marked \<open>NonFinite\<close>.
\<close>

datatype 'a fp = Finite 'a | NonFinite

type_synonym vec = "real list"
type_synonym mat = "real list list"

definition vadd :: "vec \<Rightarrow> vec \<Rightarrow> vec" where
  "vadd u v = map2 (+) u v"

definition vsub :: "vec \<Rightarrow> vec \<Rightarrow> vec" where
  "vsub u v = map2 (-) u v"

definition smult :: "real \<Rightarrow> vec \<Rightarrow> vec" where
  "smult c v = map ((*) c) v"

definition dot :: "vec \<Rightarrow> vec \<Rightarrow> real" where
  "dot u v = sum_list (map2 (*) u v)"

definition mat_vec :: "mat \<Rightarrow> vec \<Rightarrow> vec" where
  "mat_vec M v = map (\<lambda>r. dot r v) M"

definition row_times :: "vec \<Rightarrow> mat \<Rightarrow> vec" where
  "row_times r M = map (dot r) (transpose M)"

definition mat_mul :: "mat \<Rightarrow> mat \<Rightarrow> mat" where
  "mat_mul A B = map (\<lambda>r. row_times r B) A"

definition mat_add :: "mat \<Rightarrow> mat \<Rightarrow> mat" where
  "mat_add A B = map2 vadd A B"

definition mat_sub :: "mat \<Rightarrow> mat \<Rightarrow> mat" where
  "mat_sub A B = map2 vsub A B"

definition Identity :: "nat \<Rightarrow> mat" where
  "Identity n = map (\<lambda>i. map (\<lambda>j. if i = j then 1 else 0) [0..<n]) [0..<n]"

definition del :: "nat \<Rightarrow> 'a list \<Rightarrow> 'a list" where
  "del j xs = take j xs @ drop (Suc j) xs"

text \<open>Determinant by expansion along the first row.\<close>

fun det :: "mat \<Rightarrow> real" where
  "det [] = 1"
| "det (r # rs) = (\<Sum>j\<leftarrow>[0..<length r]. (- 1) ^ j * (r ! j) * det (map (del j) rs))"

definition cofactor :: "mat \<Rightarrow> nat \<Rightarrow> nat \<Rightarrow> real" where
  "cofactor M i j = (- 1) ^ (i + j) * det (map (del j) (del i M))"

text \<open>
  \<open>inverse()\<close> of the linear-algebra library (not part of the repository): for an invertible
  matrix the inverse, here by cofactors; for a matrix whose determinant is exactly zero the
  library divides by zero and every entry of the result is an infinity or a NaN.
\<close>

definition inverse_mat :: "mat \<Rightarrow> mat fp" where
  "inverse_mat M =
     (let d = det M; n = length M in
      if d = 0 then NonFinite
      else Finite (map (\<lambda>i. map (\<lambda>j. cofactor M j i / d) [0..<n]) [0..<n]))"

section \<open>The gain-matrix updater\<close>

text \<open>
  A calibrated measurement: the measured local vector, its covariance and the projector from
  the bound parameter space onto the measured subspace.
\<close>

record Measurement =
  meas_parameters :: vec
  meas_covariance :: mat
  projector :: mat

text \<open>
  Modelled from the spec: \<open>Measurement::residual\<close> is declared outside the sources at hand;
  the residual is the measured vector minus the projection of the given parameter vector.
\<close>

definition residual :: "Measurement \<Rightarrow> vec \<Rightarrow> vec" where
  "residual m pars = vsub (meas_parameters m) (mat_vec (projector m) pars)"

text \<open>Bound track parameters on a reference surface; the covariance may be absent.\<close>

record 'srf BoundParameters =
  parameters :: vec
  covariance :: "mat option"
  referenceSurface :: 'srf

record ('u, 'srf) TrackState =
  uncalibrated :: "'u option"
  calibrated :: "Measurement option"
  predicted :: "'srf BoundParameters option"
  filtered :: "'srf BoundParameters fp option"
  parameter_jacobian :: "mat option"
  parameter_pathLength :: real
  chi2 :: "real fp"

text \<open>
  The ways in which the call operator does not return: a failed \<open>assert\<close> (only in a build
  without \<open>NDEBUG\<close>) and the dereference of an empty optional or a null covariance.
\<close>

datatype updater_error = AssertionFailed | EmptyDereference

text \<open>The Kalman gain \<open>K = P * H\<^sup>T * (H * P * H\<^sup>T + V)\<^sup>-\<^sup>1\<close>.\<close>

definition innovation_covariance :: "mat \<Rightarrow> mat \<Rightarrow> mat \<Rightarrow> mat" where
  "innovation_covariance P H V = mat_add (mat_mul (mat_mul H P) (transpose H)) V"

definition gain_matrix :: "mat \<Rightarrow> mat \<Rightarrow> mat \<Rightarrow> mat fp" where
  "gain_matrix P H V =
     (case inverse_mat (innovation_covariance P H V) of
        NonFinite \<Rightarrow> NonFinite
      | Finite Si \<Rightarrow> Finite (mat_mul (mat_mul P (transpose H)) Si))"

text \<open>
  The chi-square of the filtered state: \<open>r\<^sup>T * ((I - H * K) * V)\<^sup>-\<^sup>1 * r\<close> with \<open>r\<close> the
  residual of the filtered parameters.
\<close>

definition filtered_chi2 :: "Measurement \<Rightarrow> mat \<Rightarrow> vec \<Rightarrow> real fp" where
  "filtered_chi2 m K fpars =
     (let H = projector m;
          r = residual m fpars;
          R = mat_mul (mat_sub (Identity (length H)) (mat_mul H K)) (meas_covariance m)
      in case inverse_mat R of
           NonFinite \<Rightarrow> NonFinite
         | Finite Ri \<Rightarrow> Finite (dot (row_times r Ri) r))"

text \<open>
  The body of the visitor applied to the calibrated measurement: gain, filtered parameters,
  filtered covariance, chi-square, and the stores into the track state.  Where the gain is
  not finite, neither are the filtered parameters, the filtered covariance and the
  chi-square, which are sums of products with its entries.
\<close>

definition visit_calibrated ::
  "('u, 'srf) TrackState \<Rightarrow> 'srf BoundParameters \<Rightarrow> mat \<Rightarrow> Measurement \<Rightarrow> ('u, 'srf) TrackState" where
  "visit_calibrated trackState pred predicted_covariance cal =
     (let H = projector cal in
      case gain_matrix predicted_covariance H (meas_covariance cal) of
        NonFinite \<Rightarrow> trackState\<lparr>chi2 := NonFinite, filtered := Some NonFinite\<rparr>
      | Finite K \<Rightarrow>
          (let filtered_parameters =
                 vadd (parameters pred) (mat_vec K (residual cal (parameters pred)));
               filtered_covariance =
                 mat_mul (mat_sub (Identity (length (parameters pred))) (mat_mul K H))
                   predicted_covariance;
               filt = \<lparr>parameters = filtered_parameters,
                       covariance = Some filtered_covariance,
                       referenceSurface = referenceSurface pred\<rparr>
           in trackState\<lparr>chi2 := filtered_chi2 cal K filtered_parameters,
                           filtered := Some (Finite filt)\<rparr>))"

text \<open>
  \<open>GainMatrixUpdater::operator()\<close>.  \<open>ndebug\<close> tells whether the asserts are compiled out,
  \<open>calibrator\<close> is the measurement calibrator the updater was constructed with.  The result
  is the mutated track state together with the returned boolean.
\<close>

definition GainMatrixUpdater ::
  "bool \<Rightarrow> ('u \<Rightarrow> 'srf BoundParameters \<Rightarrow> Measurement) \<Rightarrow> ('u, 'srf) TrackState
     \<Rightarrow> updater_error + (('u, 'srf) TrackState \<times> bool)" where
  "GainMatrixUpdater ndebug calibrator trackState =
     (if \<not> ndebug \<and> uncalibrated trackState = None then Inl AssertionFailed
      else if \<not> ndebug \<and> calibrated trackState \<noteq> None then Inl AssertionFailed
      else if \<not> ndebug \<and> predicted trackState = None then Inl AssertionFailed
      else if \<not> ndebug \<and> filtered trackState \<noteq> None then Inl AssertionFailed
      else
        (case predicted trackState of
           None \<Rightarrow> Inl EmptyDereference
         | Some pred \<Rightarrow>
             (case covariance pred of
                None \<Rightarrow> Inl EmptyDereference
              | Some predicted_covariance \<Rightarrow>
                  (case uncalibrated trackState of
                     None \<Rightarrow> Inl EmptyDereference
                   | Some unc \<Rightarrow>
                       (let cal = calibrator unc pred
                        in Inr (visit_calibrated (trackState\<lparr>calibrated := Some cal\<rparr>)
                                  pred predicted_covariance cal, True))))))"

text \<open>
  The scenario of the regression test \<open>gain_matrix_updater\<close>: a measurement of the two
  local coordinates, whose projector picks the first two bound parameters, and the predicted
  parameters with their diagonal covariance.  \<open>M_PI\<close> is the double nearest to \<open>\<pi>\<close>.
\<close>

definition M_PI :: real where
  "M_PI = 884279719003555 / 281474976710656"

definition test_measurement :: Measurement where
  "test_measurement =
     \<lparr>meas_parameters = [- 0.1, 0.45],
      meas_covariance = [[0.04, 0], [0, 0.1]],
      projector = [[1, 0, 0, 0, 0, 0], [0, 1, 0, 0, 0, 0]]\<rparr>"

definition test_predicted :: "unit BoundParameters" where
  "test_predicted =
     \<lparr>parameters = [0.3, 0.5, 0.5 * M_PI, 0.3 * M_PI, 0.01, 0],
      covariance = Some [[0.08, 0, 0, 0, 0, 0], [0, 0.3, 0, 0, 0, 0], [0, 0, 1, 0, 0, 0],
                         [0, 0, 0, 1, 0, 0], [0, 0, 0, 0, 1, 0], [0, 0, 0, 0, 0, 0]],
      referenceSurface = ()\<rparr>"

definition test_trackState :: "(Measurement, unit) TrackState" where
  "test_trackState =
     \<lparr>uncalibrated = Some test_measurement, calibrated = None,
      predicted = Some test_predicted, filtered = None,
      parameter_jacobian = Some (Identity 8), parameter_pathLength = 0, chi2 = Finite 0\<rparr>"

text \<open>
  The calibrator that the updater has when none is given (it is not among the sources)
  hands the measurement behind the source link on as it is.
\<close>

definition VoidMeasurementCalibrator :: "Measurement \<Rightarrow> 'srf BoundParameters \<Rightarrow> Measurement" where
  "VoidMeasurementCalibrator m pars = m"

text \<open>Entry-wise closeness, as \<open>CHECK_CLOSE_ABS\<close> tests it, and the reference values.\<close>

definition close_abs :: "vec \<Rightarrow> vec \<Rightarrow> real \<Rightarrow> bool" where
  "close_abs u v tol = (length u = length v \<and> list_all2 (\<lambda>a b. \<bar>a - b\<bar> \<le> tol) u v)"

definition expPar :: vec where
  "expPar = [0.0333333, 0.4625000, 1.5707963, 0.9424778, 0.0100000, 0.0000000]"

definition expCov :: mat where
  "expCov = [[0.0266667, 0, 0, 0, 0, 0], [0, 0.0750000, 0, 0, 0, 0], [0, 0, 1.0000000, 0, 0, 0],
             [0, 0, 0, 1.0000000, 0, 0], [0, 0, 0, 0, 1.0000000, 0], [0, 0, 0, 0, 0, 0.0000000]]"

definition expChi2 :: real where
  "expChi2 = 1.33958"

definition close_abs_mat :: "mat \<Rightarrow> mat \<Rightarrow> real \<Rightarrow> bool" where
  "close_abs_mat A B tol = (length A = length B \<and> list_all2 (\<lambda>a b. close_abs a b tol) A B)"

text \<open>
  A measurement of the time coordinate alone with variance zero: on the predicted state of
  the test, whose time variance is zero as well, the innovation covariance is the 1x1 zero
  matrix.
\<close>

definition singular_measurement :: Measurement where
  "singular_measurement =
     \<lparr>meas_parameters = [0], meas_covariance = [[0]], projector = [[0, 0, 0, 0, 0, 1]]\<rparr>"

definition singular_trackState :: "(Measurement, unit) TrackState" where
  "singular_trackState = test_trackState\<lparr>uncalibrated := Some singular_measurement\<rparr>"

section \<open>Stepper state\<close>

text \<open>\<open>norm()\<close>, \<open>lpNorm<1>()\<close>, \<open>normalized()\<close> and \<open>std::hypot\<close> of the libraries.\<close>

definition norm_vec :: "vec \<Rightarrow> real" where
  "norm_vec v = sqrt (dot v v)"

definition lpNorm1 :: "vec \<Rightarrow> real" where
  "lpNorm1 v = sum_list (map abs v)"

text \<open>
  \<open>normalized()\<close> divides by the norm when the squared norm is positive and hands the
  vector back unchanged otherwise.
\<close>

definition normalized :: "vec \<Rightarrow> vec" where
  "normalized v = (let z = dot v v in if z > 0 then map (\<lambda>x. x / sqrt z) v else v)"

definition hypot :: "real \<Rightarrow> real \<Rightarrow> real" where
  "hypot x y = sqrt (x * x + y * y)"

text \<open>Lifting of the arithmetic to quantities that may be non-finite.\<close>

definition fp_lift2 :: "('a \<Rightarrow> 'b \<Rightarrow> 'c) \<Rightarrow> 'a fp \<Rightarrow> 'b fp \<Rightarrow> 'c fp" where
  "fp_lift2 f a b =
     (case a of NonFinite \<Rightarrow> NonFinite
      | Finite x \<Rightarrow> (case b of NonFinite \<Rightarrow> NonFinite | Finite y \<Rightarrow> Finite (f x y)))"

text \<open>Writing a segment of a vector, a block of a matrix, and a single entry.\<close>

definition set_segment :: "'a list \<Rightarrow> nat \<Rightarrow> 'a list \<Rightarrow> 'a list" where
  "set_segment xs j ys = take j xs @ ys @ drop (j + length ys) xs"

definition set_block :: "mat \<Rightarrow> nat \<Rightarrow> nat \<Rightarrow> mat \<Rightarrow> mat" where
  "set_block M i j B =
     take i M @ map2 (\<lambda>row brow. set_segment row j brow) (take (length B) (drop i M)) B
       @ drop (i + length B) M"

definition set_entry :: "mat \<Rightarrow> nat \<Rightarrow> nat \<Rightarrow> real \<Rightarrow> mat" where
  "set_entry M i j x = M[i := (M ! i)[j := x]]"

datatype NavigationDirection = backward | forward

definition nav_value :: "NavigationDirection \<Rightarrow> real" where
  "nav_value d = (case d of backward \<Rightarrow> - 1 | forward \<Rightarrow> 1)"

text \<open>
  The track parameters a stepper state is made from, as their accessors present them:
  global position and momentum, charge, time, the optional covariance and the bound
  parameter vector.
\<close>

record TrackParameters =
  par_position :: vec
  par_momentum :: vec
  par_charge :: real
  par_time :: real
  par_covariance :: "mat option"
  par_parameters :: vec

text \<open>
  \<open>StraightLineStepper::State\<close>.  The propagated time, the derivative vector and the
  transport jacobian are the components that the step computes through a division by the
  momentum \<open>p\<close>.
\<close>

record 'ctx State =
  jacTransport :: "mat fp"
  jacobian :: mat
  jacToGlobal :: "mat option"
  derivative :: "vec fp"
  covTransport :: bool
  cov :: mat
  pos :: vec
  dir :: vec
  p :: real
  q :: real
  t0 :: real
  dt :: "real fp"
  navDir :: NavigationDirection
  pathAccumulated :: real
  stepSize :: real
  geoContext :: 'ctx

text \<open>
  The constructor of the state from bound track parameters.  \<open>initJacobianToGlobal\<close> stands
  for the method of the reference surface, which is not among the sources; it receives the
  position, the normalized momentum and the parameter vector.
\<close>

definition State_init ::
  "(vec \<Rightarrow> vec \<Rightarrow> vec \<Rightarrow> mat) \<Rightarrow> 'ctx \<Rightarrow> TrackParameters \<Rightarrow> NavigationDirection \<Rightarrow> real
     \<Rightarrow> 'ctx State" where
  "State_init initJacobianToGlobal gctx par ndir ssize =
     (let st = \<lparr>jacTransport = Finite (Identity 8),
                 jacobian = Identity 8,
                 jacToGlobal = None,
                 derivative = Finite (replicate 8 0),
                 covTransport = False,
                 cov = replicate 8 (replicate 8 0),
                 pos = par_position par,
                 dir = normalized (par_momentum par),
                 p = norm_vec (par_momentum par),
                 q = par_charge par,
                 t0 = par_time par,
                 dt = Finite 0,
                 navDir = ndir,
                 pathAccumulated = 0,
                 stepSize = nav_value ndir * \<bar>ssize\<bar>,
                 geoContext = gctx\<rparr>
      in case par_covariance par of
           None \<Rightarrow> st
         | Some C \<Rightarrow>
             (let J = initJacobianToGlobal (par_position par) (normalized (par_momentum par))
                        (par_parameters par)
              in st\<lparr>covTransport := True, jacToGlobal := Some J,
                     cov := mat_mul (mat_mul J C) (transpose J)\<rparr>))"

text \<open>
  The two \<open>update\<close> methods; their text is the same in the straight-line stepper and in the
  Runge-Kutta stepper.  \<open>globalCovariance\<close> stands for the method of the parameters.
\<close>

definition update :: "(TrackParameters \<Rightarrow> 'ctx \<Rightarrow> mat) \<Rightarrow> ('ctx, 'z) State_scheme \<Rightarrow> TrackParameters
     \<Rightarrow> ('ctx, 'z) State_scheme" where
  "update globalCovariance state pars =
     (let mom = par_momentum pars;
          st = state\<lparr>pos := par_position pars, dir := normalized mom, p := norm_vec mom,
                     dt := Finite (par_time pars)\<rparr>
      in case par_covariance pars of
           None \<Rightarrow> st
         | Some C \<Rightarrow> st\<lparr>cov := globalCovariance pars (geoContext st)\<rparr>)"

definition update_free :: "('ctx, 'z) State_scheme \<Rightarrow> vec \<Rightarrow> vec \<Rightarrow> real \<Rightarrow> real
     \<Rightarrow> ('ctx, 'z) State_scheme" where
  "update_free state uposition udirection up time =
     state\<lparr>pos := uposition, dir := udirection, p := up, dt := Finite time\<rparr>"

text \<open>The options of the propagation that the steppers read.\<close>

record PropagatorOptions =
  tolerance :: real
  stepSizeCutOff :: real
  mass :: real

record 's PropagatorState =
  stepping :: 's
  options :: PropagatorOptions

section \<open>The straight-line stepper\<close>

text \<open>
  \<open>dtds = std::hypot(1, mass / p)\<close>: with \<open>p = 0\<close> the quotient, and with it \<open>dtds\<close>, is not
  finite.
\<close>

definition sl_dtds :: "real \<Rightarrow> real \<Rightarrow> real fp" where
  "sl_dtds m pp = (if pp = 0 then NonFinite else Finite (hypot 1 (m / pp)))"

text \<open>
  The step transport matrix: the identity, the block \<open>h * Identity\<close> at rows 0..2 and
  columns 4..6, and the entry \<open>h * mass\<^sup>2 / (p * dtds)\<close> at row 3, column 7.
\<close>

definition sl_D :: "real \<Rightarrow> real \<Rightarrow> real \<Rightarrow> real \<Rightarrow> mat" where
  "sl_D h m pp dtds =
     set_entry (set_block (Identity 8) 0 4 (map (smult h) (Identity 3))) 3 7
       (h * m * m / (pp * dtds))"

text \<open>\<open>StraightLineStepper::step\<close>; it returns the state it leaves and the step taken.\<close>

definition sl_step :: "'ctx State PropagatorState \<Rightarrow> 'ctx State PropagatorState \<times> real" where
  "sl_step state =
     (let s = stepping state;
          h = stepSize s;
          dtds = sl_dtds (mass (options state)) (p s);
          s1 = s\<lparr>pos := vadd (pos s) (smult h (dir s)),
                 dt := fp_lift2 (+) (dt s) (map_fp ((*) h) dtds)\<rparr>;
          s2 = (if covTransport s1 then
                  (let D = map_fp (sl_D h (mass (options state)) (p s1)) dtds;
                       d1 = fp_lift2 (\<lambda>d x. d[3 := x]) (derivative s1) dtds
                   in s1\<lparr>jacTransport := fp_lift2 mat_mul D (jacTransport s1),
                          derivative := map_fp (\<lambda>d. set_segment d 0 (dir s1)) d1\<rparr>)
                else s1);
          s3 = s2\<lparr>pathAccumulated := pathAccumulated s2 + h\<rparr>
      in (state\<lparr>stepping := s3\<rparr>, h))"

section \<open>The Runge-Kutta stepper\<close>

record StepData =
  B_first :: vec
  B_middle :: vec
  B_last :: vec
  k1 :: vec
  k2 :: vec
  k3 :: vec
  k4 :: vec

text \<open>
  The state of the Runge-Kutta stepper: the fields of the state above, the Runge-Kutta
  data, the cache of the field provider and the extension list.
\<close>

record ('ctx, 'cache, 'ext) EigenState = "'ctx State" +
  stepData :: StepData
  fieldCache :: 'cache
  extension :: 'ext

datatype EigenStepperError = StepSizeStalled | StepInvalid

text \<open>
  The extension list is a member of the stepping state; its methods are not among the
  sources and are parameters here.  Each \<open>k\<close> method reads the propagator state, receives
  the vector it is to write, the field and (from \<open>k2\<close> on) the step fraction and the previous
  \<open>k\<close>, and yields its boolean, the vector written and the extension as it leaves it.
  \<open>finalize\<close> may change the whole state; with covariance transport it also yields the step
  transport matrix \<open>D\<close>.
\<close>

record ('ps, 'ext) ExtensionList =
  validExtensionForStep :: "'ps \<Rightarrow> bool \<times> 'ext"
  ext_k1 :: "'ps \<Rightarrow> vec \<Rightarrow> vec \<Rightarrow> bool \<times> vec \<times> 'ext"
  ext_k2 :: "'ps \<Rightarrow> vec \<Rightarrow> vec \<Rightarrow> real \<Rightarrow> vec \<Rightarrow> bool \<times> vec \<times> 'ext"
  ext_k3 :: "'ps \<Rightarrow> vec \<Rightarrow> vec \<Rightarrow> real \<Rightarrow> vec \<Rightarrow> bool \<times> vec \<times> 'ext"
  ext_k4 :: "'ps \<Rightarrow> vec \<Rightarrow> vec \<Rightarrow> real \<Rightarrow> vec \<Rightarrow> bool \<times> vec \<times> 'ext"
  ext_finalize :: "'ps \<Rightarrow> real \<Rightarrow> bool \<times> 'ps"
  ext_finalizeD :: "'ps \<Rightarrow> real \<Rightarrow> bool \<times> 'ps \<times> mat"

type_synonym ('ctx, 'cache, 'ext) eigen_ps = "('ctx, 'cache, 'ext) EigenState PropagatorState"

text \<open>Stores into the nested state.\<close>

definition set_sd :: "(StepData \<Rightarrow> StepData) \<Rightarrow> ('ctx, 'cache, 'ext) eigen_ps
     \<Rightarrow> ('ctx, 'cache, 'ext) eigen_ps" where
  "set_sd f state = state\<lparr>stepping := (stepping state)\<lparr>stepData := f (stepData (stepping state))\<rparr>\<rparr>"

definition set_ext :: "'ext \<Rightarrow> ('ctx, 'cache, 'ext) eigen_ps \<Rightarrow> ('ctx, 'cache, 'ext) eigen_ps" where
  "set_ext e state = state\<lparr>stepping := (stepping state)\<lparr>extension := e\<rparr>\<rparr>"

definition set_cache :: "'cache \<Rightarrow> ('ctx, 'cache, 'ext) eigen_ps \<Rightarrow> ('ctx, 'cache, 'ext) eigen_ps" where
  "set_cache c state = state\<lparr>stepping := (stepping state)\<lparr>fieldCache := c\<rparr>\<rparr>"

definition set_stepSize :: "real \<Rightarrow> ('ctx, 'cache, 'ext) eigen_ps \<Rightarrow> ('ctx, 'cache, 'ext) eigen_ps" where
  "set_stepSize x state = state\<lparr>stepping := (stepping state)\<lparr>stepSize := x\<rparr>\<rparr>"

text \<open>
  The functor \<open>tryRungeKuttaStep\<close>.  It takes the state, the current value of the local
  \<open>error_estimate\<close> and the step size \<open>h\<close>, and yields its boolean, the state, \<open>h2\<close> and the
  error estimate; the estimate is left as it was when one of the extension methods fails.
  \<open>getField\<close> is the field provider with its cache.
\<close>

definition tryRungeKuttaStep ::
  "(('ctx, 'cache, 'ext) eigen_ps, 'ext) ExtensionList \<Rightarrow> ('cache \<Rightarrow> vec \<Rightarrow> vec \<times> 'cache)
     \<Rightarrow> ('ctx, 'cache, 'ext) eigen_ps \<Rightarrow> real \<Rightarrow> real
     \<Rightarrow> bool \<times> ('ctx, 'cache, 'ext) eigen_ps \<times> real \<times> real" where
  "tryRungeKuttaStep E getField state error_estimate h =
     (let h2 = h * h;
          half_h = h * 0.5;
          pos1 = vadd (vadd (pos (stepping state)) (smult half_h (dir (stepping state))))
                   (smult (h2 * 0.125) (k1 (stepData (stepping state))));
          (Bm, c1) = getField (fieldCache (stepping state)) pos1;
          state1 = set_sd (\<lambda>sd. sd\<lparr>B_middle := Bm\<rparr>) (set_cache c1 state);
          (ok2, k2v, e2) = ext_k2 E state1 (k2 (stepData (stepping state1))) Bm half_h
                             (k1 (stepData (stepping state1)));
          state2 = set_ext e2 (set_sd (\<lambda>sd. sd\<lparr>k2 := k2v\<rparr>) state1)
      in if \<not> ok2 then (False, state2, h2, error_estimate)
         else
           (let (ok3, k3v, e3) = ext_k3 E state2 (k3 (stepData (stepping state2))) Bm half_h k2v;
                state3 = set_ext e3 (set_sd (\<lambda>sd. sd\<lparr>k3 := k3v\<rparr>) state2)
            in if \<not> ok3 then (False, state3, h2, error_estimate)
               else
                 (let pos2 = vadd (vadd (pos (stepping state3)) (smult h (dir (stepping state3))))
                               (smult (h2 * 0.5) k3v);
                      (Bl, c2) = getField (fieldCache (stepping state3)) pos2;
                      state4 = set_sd (\<lambda>sd. sd\<lparr>B_last := Bl\<rparr>) (set_cache c2 state3);
                      (ok4, k4v, e4) = ext_k4 E state4 (k4 (stepData (stepping state4))) Bl h k3v;
                      state5 = set_ext e4 (set_sd (\<lambda>sd. sd\<lparr>k4 := k4v\<rparr>) state4)
                  in if \<not> ok4 then (False, state5, h2, error_estimate)
                     else
                       (let sd = stepData (stepping state5);
                            est = max (h2 * lpNorm1 (vadd (vsub (vsub (k1 sd) (k2 sd)) (k3 sd)) (k4 sd)))
                                    (1 / 10 ^ 20)
                        in (est \<le> tolerance (options state5), state5, h2, est)))))"

text \<open>
  The step size scaling
  \<open>std::min(std::max(0.25, std::pow(tolerance / std::abs(2. * error_estimate), 0.25)), 4.)\<close>.
  The estimate is zero only before the first completed trial; the quotient is then an
  infinity, or a NaN when the tolerance is zero as well.  \<open>std::pow\<close> of a negative quotient
  is a NaN, and \<open>std::max(0.25, NaN)\<close> is 0.25.
\<close>

definition stepSizeScaling :: "real \<Rightarrow> real \<Rightarrow> real" where
  "stepSizeScaling tol error_estimate =
     (if error_estimate = 0 then (if tol = 0 then 0.25 else 4)
      else if tol / \<bar>2 * error_estimate\<bar> < 0 then 0.25
      else min (max 0.25 (root 4 (tol / \<bar>2 * error_estimate\<bar>))) 4)"

text \<open>
  How the loop over the trials ends: stalled, or left for the rest of the step.  The latter
  records whether it was left because the trial passed (rather than through a \<open>break\<close>),
  the state, \<open>h2\<close> and the value of \<open>stepAttempts\<close>.
\<close>

datatype 'ps rk_exit = Stalled 'ps | Done bool 'ps real "32 word"

text \<open>The counter comes one step nearer to 100 with each increment that does not reach it.\<close>

lemma unat_pred_less:
  fixes w :: "32 word"
  assumes "w \<noteq> 0"
  shows "unat (w - 1) < unat w"
proof -
  have "unat w \<noteq> 0" using assms by (simp add: unat_eq_0)
  moreover have "unat (w - 1) = unat w - 1" using assms by (rule unat_minus_one)
  ultimately show ?thesis by arith
qed

lemma attempts_decrease:
  fixes n :: "32 word"
  assumes "n \<noteq> 99"
  shows "unat (98 - n) < unat (99 - n)"
proof -
  have "99 - n \<noteq> 0"
    using assms by simp
  then have "unat (99 - n - 1) < unat (99 - n)"
    by (rule unat_pred_less)
  moreover have "98 - n = 99 - n - 1"
    by simp
  ultimately show ?thesis by (simp only:)
qed

text \<open>
  The loop \<open>while (!tryRungeKuttaStep(state.stepping.stepSize))\<close>, from the given values of
  \<open>error_estimate\<close> and of the counter \<open>stepAttempts\<close> (an \<open>unsigned int\<close>).  \<open>one_mm\<close> is the
  value of the unit literal \<open>1_mm\<close>.
\<close>

function rk_loop ::
  "real \<Rightarrow> (('ctx, 'cache, 'ext) eigen_ps, 'ext) ExtensionList \<Rightarrow> ('cache \<Rightarrow> vec \<Rightarrow> vec \<times> 'cache)
     \<Rightarrow> ('ctx, 'cache, 'ext) eigen_ps \<Rightarrow> real \<Rightarrow> 32 word
     \<Rightarrow> ('ctx, 'cache, 'ext) eigen_ps rk_exit" where
  "rk_loop one_mm E getField state error_estimate stepAttempts =
     (case tryRungeKuttaStep E getField state error_estimate (stepSize (stepping state)) of
        (ok, state1, h2, est) \<Rightarrow>
          if ok then Done True state1 h2 stepAttempts
          else
            (let stepSizeScaling = stepSizeScaling (tolerance (options state1)) est
             in if stepSizeScaling = 1 then Done False state1 h2 stepAttempts
                else
                  (let state2 = set_stepSize (stepSize (stepping state1) * stepSizeScaling) state1
                   in if stepAttempts + 1 = 100
                      then Done False
                             (set_stepSize (nav_value (navDir (stepping state2)) * one_mm) state2)
                             h2 (stepAttempts + 1)
                      else if stepSize (stepping state2) * stepSize (stepping state2)
                              < stepSizeCutOff (options state2) * stepSizeCutOff (options state2)
                           then Stalled state2
                           else rk_loop one_mm E getField state2 est (stepAttempts + 1))))"
  by pat_completeness auto
termination
  by (relation "measure (\<lambda>(m, E, g, s, e, n). unat (99 - n))")
    (simp_all add: attempts_decrease)

declare rk_loop.simps [simp del]

text \<open>
  The first Runge-Kutta point: the field at the current position, the test of the extension
  list and \<open>k1\<close>.  The boolean is false where \<open>step\<close> returns 0 at once.
\<close>

definition rk_first ::
  "(('ctx, 'cache, 'ext) eigen_ps, 'ext) ExtensionList \<Rightarrow> ('cache \<Rightarrow> vec \<Rightarrow> vec \<times> 'cache)
     \<Rightarrow> ('ctx, 'cache, 'ext) eigen_ps \<Rightarrow> bool \<times> ('ctx, 'cache, 'ext) eigen_ps" where
  "rk_first E getField state =
     (let (B1, c1) = getField (fieldCache (stepping state)) (pos (stepping state));
          state0 = set_sd (\<lambda>sd. sd\<lparr>B_first := B1\<rparr>) (set_cache c1 state);
          (valid, e0) = validExtensionForStep E state0;
          state1 = set_ext e0 state0
      in if \<not> valid then (False, state1)
         else
           (let (ok1, k1v, e1) = ext_k1 E state1 (k1 (stepData (stepping state1))) B1
            in (ok1, set_ext e1 (set_sd (\<lambda>sd. sd\<lparr>k1 := k1v\<rparr>) state1))))"

text \<open>
  The update of the track parameters according to the equations of motion, with the step
  \<open>h\<close> and the \<open>h2\<close> of the last trial.  The new direction is divided by its norm; when
  that norm is zero the direction the call leaves is not finite.
\<close>

definition rk_update ::
  "('ctx, 'cache, 'ext) eigen_ps \<Rightarrow> real \<Rightarrow> real \<Rightarrow> ('ctx, 'cache, 'ext) eigen_ps fp" where
  "rk_update state h h2 =
     (let s = stepping state;
          sd = stepData s;
          pos1 = vadd (pos s)
                   (vadd (smult h (dir s)) (smult (h2 / 6) (vadd (vadd (k1 sd) (k2 sd)) (k3 sd))));
          dir1 = vadd (dir s)
                   (smult (h / 6) (vadd (vadd (k1 sd) (smult 2 (vadd (k2 sd) (k3 sd)))) (k4 sd)))
      in if norm_vec dir1 = 0 then NonFinite
         else
           (let dir2 = map (\<lambda>x. x / norm_vec dir1) dir1;
                s1 = s\<lparr>pos := pos1, dir := dir2\<rparr>;
                s2 = (if covTransport s1
                      then s1\<lparr>derivative :=
                               map_fp (\<lambda>d. set_segment (set_segment d 0 dir2) 4 (k4 sd))
                                 (derivative s1)\<rparr>
                      else s1);
                s3 = s2\<lparr>pathAccumulated := pathAccumulated s2 + h\<rparr>
            in Finite (state\<lparr>stepping := s3\<rparr>)))"

text \<open>The part of \<open>step\<close> after the loop: \<open>finalize\<close>, the transport jacobian, the update.\<close>

definition rk_after ::
  "(('ctx, 'cache, 'ext) eigen_ps, 'ext) ExtensionList \<Rightarrow> ('ctx, 'cache, 'ext) eigen_ps \<Rightarrow> real
     \<Rightarrow> ((EigenStepperError + real) \<times> ('ctx, 'cache, 'ext) eigen_ps) fp" where
  "rk_after E state h2 =
     (let h = stepSize (stepping state)
      in if covTransport (stepping state) then
           (case ext_finalizeD E state h of
              (ok, state1, D) \<Rightarrow>
                if \<not> ok then Finite (Inl StepInvalid, state1)
                else map_fp (Pair (Inr h))
                       (rk_update
                          (state1\<lparr>stepping := (stepping state1)
                              \<lparr>jacTransport := map_fp (mat_mul D) (jacTransport (stepping state1))\<rparr>\<rparr>)
                          h h2))
         else
           (case ext_finalize E state h of
              (ok, state1) \<Rightarrow>
                if \<not> ok then Finite (Inl StepInvalid, state1)
                else map_fp (Pair (Inr h)) (rk_update state1 h h2)))"

text \<open>
  \<open>EigenStepper::step\<close>.  The result is the \<open>Result<double>\<close> together with the state the
  call leaves, or \<open>NonFinite\<close> when the call returns with a direction that is not finite.
\<close>

definition step ::
  "real \<Rightarrow> (('ctx, 'cache, 'ext) eigen_ps, 'ext) ExtensionList \<Rightarrow> ('cache \<Rightarrow> vec \<Rightarrow> vec \<times> 'cache)
     \<Rightarrow> ('ctx, 'cache, 'ext) eigen_ps
     \<Rightarrow> ((EigenStepperError + real) \<times> ('ctx, 'cache, 'ext) eigen_ps) fp" where
  "step one_mm E getField state =
     (case rk_first E getField state of
        (ok, state1) \<Rightarrow>
          if \<not> ok then Finite (Inr 0, state1)
          else
            (case rk_loop one_mm E getField state1 0 0 of
               Stalled state2 \<Rightarrow> Finite (Inl StepSizeStalled, state2)
             | Done accepted state2 h2 n \<Rightarrow> rk_after E state2 h2))"

text \<open>
  The passes of the loop: \<open>rk_retries one_mm E getField a b\<close> holds when the loop, entered
  with the state, error estimate and counter \<open>a\<close>, comes to evaluate its condition with
  those of \<open>b\<close>.
\<close>

inductive rk_retries ::
  "real \<Rightarrow> (('ctx, 'cache, 'ext) eigen_ps, 'ext) ExtensionList \<Rightarrow> ('cache \<Rightarrow> vec \<Rightarrow> vec \<times> 'cache)
     \<Rightarrow> ('ctx, 'cache, 'ext) eigen_ps \<times> real \<times> 32 word
     \<Rightarrow> ('ctx, 'cache, 'ext) eigen_ps \<times> real \<times> 32 word \<Rightarrow> bool"
  for one_mm E getField where
  rk_entry: "rk_retries one_mm E getField a a"
| rk_retry:
    "rk_retries one_mm E getField a (state, error_estimate, stepAttempts) \<Longrightarrow>
     tryRungeKuttaStep E getField state error_estimate (stepSize (stepping state))
       = (False, state1, h2, est) \<Longrightarrow>
     stepSizeScaling (tolerance (options state1)) est \<noteq> 1 \<Longrightarrow>
     state2 = set_stepSize
                (stepSize (stepping state1) * stepSizeScaling (tolerance (options state1)) est)
                state1 \<Longrightarrow>
     stepAttempts + 1 \<noteq> 100 \<Longrightarrow>
     \<not> stepSize (stepping state2) * stepSize (stepping state2)
         < stepSizeCutOff (options state2) * stepSizeCutOff (options state2) \<Longrightarrow>
     rk_retries one_mm E getField a (state2, est, stepAttempts + 1)"

section \<open>Scenarios for the steppers\<close>

text \<open>A neutral particle at rest, and a particle of momentum 5 along the first axis.\<close>

definition rest_parameters :: TrackParameters where
  "rest_parameters =
     \<lparr>par_position = [0, 0, 0], par_momentum = [0, 0, 0], par_charge = 0, par_time = 0,
      par_covariance = None, par_parameters = [0, 0, 0, 0, 0, 0]\<rparr>"

definition moving_parameters :: TrackParameters where
  "moving_parameters =
     \<lparr>par_position = [1, 2, 3], par_momentum = [3, 0, 4], par_charge = 1, par_time = 0,
      par_covariance = Some (Identity 6), par_parameters = [0, 0, 0, 0, 1 / 5, 0]\<rparr>"

definition sl_test_state :: "unit State PropagatorState" where
  "sl_test_state =
     \<lparr>stepping = State_init (\<lambda>x d v. replicate 8 (replicate 6 0)) () moving_parameters forward 2,
      options = \<lparr>tolerance = 1 / 10 ^ 4, stepSizeCutOff = 1 / 10 ^ 3, mass = 12\<rparr>\<rparr>"

text \<open>
  An extension list whose methods always succeed: \<open>k1\<close>, \<open>k2\<close> and \<open>k3\<close> write zero, \<open>k4\<close>
  writes \<open>(c, 0, 0)\<close>, and \<open>finalize\<close> leaves the state alone and yields the identity.
\<close>

definition const_extension :: "real \<Rightarrow> ((unit, unit, unit) eigen_ps, unit) ExtensionList" where
  "const_extension c =
     \<lparr>validExtensionForStep = (\<lambda>s. (True, ())),
      ext_k1 = (\<lambda>s kn B. (True, [0, 0, 0], ())),
      ext_k2 = (\<lambda>s kn B h kp. (True, [0, 0, 0], ())),
      ext_k3 = (\<lambda>s kn B h kp. (True, [0, 0, 0], ())),
      ext_k4 = (\<lambda>s kn B h kp. (True, [c, 0, 0], ())),
      ext_finalize = (\<lambda>s h. (True, s)),
      ext_finalizeD = (\<lambda>s h. (True, s, Identity 8))\<rparr>"

definition const_field :: "unit \<Rightarrow> vec \<Rightarrow> vec \<times> unit" where
  "const_field c x = ([0, 0, 1], c)"

definition rk_state :: "real \<Rightarrow> real \<Rightarrow> real \<Rightarrow> real \<Rightarrow> (unit, unit, unit) eigen_ps" where
  "rk_state c h tol cutoff =
     \<lparr>stepping =
        \<lparr>jacTransport = Finite (Identity 8), jacobian = Identity 8, jacToGlobal = None,
         derivative = Finite (replicate 8 0), covTransport = True,
         cov = Identity 8, pos = [0, 0, 0], dir = [1, 0, 0],
         p = 1, q = 1, t0 = 0, dt = Finite 0, navDir = forward, pathAccumulated = 0,
         stepSize = h, geoContext = (),
         stepData = \<lparr>B_first = [0, 0, 1], B_middle = [0, 0, 1], B_last = [0, 0, 1],
                     k1 = [0, 0, 0], k2 = [0, 0, 0], k3 = [0, 0, 0], k4 = [c, 0, 0]\<rparr>,
         fieldCache = (), extension = ()\<rparr>,
      options = \<lparr>tolerance = tol, stepSizeCutOff = cutoff, mass = 0\<rparr>\<rparr>"

section \<open>Properties of the gain-matrix updater\<close>

lemmas la_defs = mat_mul_def mat_add_def mat_sub_def row_times_def dot_def vadd_def vsub_def
  mat_vec_def smult_def Identity_def

text \<open>On 1x1 and 2x2 matrices \<open>inverse_mat\<close> is the inverse whenever it is finite.\<close>

lemma inverse_mat_1x1:
  assumes "inverse_mat [[a]] = Finite Si"
  shows "mat_mul [[a]] Si = Identity 1 \<and> mat_mul Si [[a]] = Identity 1"
  using assms
  by (auto simp add: inverse_mat_def cofactor_def del_def la_defs transpose.simps Let_def
      split: if_splits)

lemma inverse_mat_2x2:
  assumes "inverse_mat [[a, b], [c, d]] = Finite Si"
  shows "mat_mul [[a, b], [c, d]] Si = Identity 2 \<and> mat_mul Si [[a, b], [c, d]] = Identity 2"
proof -
  define D where "D = a * d - b * c"
  have d: "D \<noteq> 0"
    using assms unfolding D_def
    by (auto simp add: inverse_mat_def Let_def upt_rec nth_Cons' del_def split: if_splits)
  have Si: "Si = [[d / D, - b / D], [- c / D, a / D]]"
    using assms d unfolding D_def
    by (auto simp add: inverse_mat_def cofactor_def Let_def upt_rec nth_Cons' del_def
        split: if_splits)
  have e1: "a * d / D - b * c / D = 1" "d * a / D - b * c / D = 1" "a * d / D - c * b / D = 1"
    using d by (simp_all add: diff_divide_distrib [symmetric] D_def mult.commute)
  have e2: "a * b / D = b * a / D" "c * d / D = d * c / D"
    by (simp_all add: mult.commute)
  show ?thesis
    unfolding Si using e1 e2
    by (simp add: la_defs transpose.simps upt_rec nth_Cons')
qed

lemma test_run:
  "GainMatrixUpdater ndebug VoidMeasurementCalibrator test_trackState =
     Inr (test_trackState\<lparr>calibrated := Some test_measurement, chi2 := Finite (643 / 480),
            filtered := Some (Finite \<lparr>parameters = [1 / 30, 37 / 80, 0.5 * M_PI, 0.3 * M_PI, 0.01, 0],
               covariance = Some [[2 / 75, 0, 0, 0, 0, 0], [0, 3 / 40, 0, 0, 0, 0],
                     [0, 0, 1, 0, 0, 0], [0, 0, 0, 1, 0, 0],
                     [0, 0, 0, 0, 1, 0], [0, 0, 0, 0, 0, 0]],
               referenceSurface = ()\<rparr>)\<rparr>, True)"
  unfolding GainMatrixUpdater_def test_trackState_def
  by (simp add: test_predicted_def VoidMeasurementCalibrator_def test_measurement_def
      visit_calibrated_def gain_matrix_def innovation_covariance_def
      Let_def filtered_chi2_def residual_def inverse_mat_def cofactor_def del_def
      la_defs transpose.simps upt_rec nth_Cons')

lemma test_innovation_inverse:
  "inverse_mat (mat_add (mat_mul (mat_mul (projector test_measurement)
       [[0.08, 0, 0, 0, 0, 0], [0, 0.3, 0, 0, 0, 0], [0, 0, 1, 0, 0, 0],
        [0, 0, 0, 1, 0, 0], [0, 0, 0, 0, 1, 0], [0, 0, 0, 0, 0, 0]])
       (transpose (projector test_measurement))) (meas_covariance test_measurement))
   = Finite [[25 / 3, 0], [0, 5 / 2]]"
  by (simp add: test_measurement_def inverse_mat_def cofactor_def del_def la_defs
      transpose.simps Let_def upt_rec nth_Cons')

lemma test_gain:
  "gain_matrix [[0.08, 0, 0, 0, 0, 0], [0, 0.3, 0, 0, 0, 0], [0, 0, 1, 0, 0, 0],
        [0, 0, 0, 1, 0, 0], [0, 0, 0, 0, 1, 0], [0, 0, 0, 0, 0, 0]]
      (projector test_measurement) (meas_covariance test_measurement)
   = Finite [[2 / 3, 0], [0, 3 / 4], [0, 0], [0, 0], [0, 0], [0, 0]]"
  by (simp add: gain_matrix_def innovation_covariance_def test_measurement_def inverse_mat_def
      cofactor_def del_def la_defs transpose.simps Let_def upt_rec nth_Cons')

lemma singular_run:
  "GainMatrixUpdater ndebug VoidMeasurementCalibrator singular_trackState =
     Inr (singular_trackState\<lparr>calibrated := Some singular_measurement, chi2 := NonFinite,
            filtered := Some NonFinite\<rparr>, True)"
  unfolding GainMatrixUpdater_def singular_trackState_def test_trackState_def
  by (simp add: test_predicted_def VoidMeasurementCalibrator_def singular_measurement_def
      visit_calibrated_def gain_matrix_def innovation_covariance_def inverse_mat_def
      cofactor_def del_def la_defs transpose.simps Let_def upt_rec nth_Cons')

lemma singular_innovation:
  "det (innovation_covariance
          [[0.08, 0, 0, 0, 0, 0], [0, 0.3, 0, 0, 0, 0], [0, 0, 1, 0, 0, 0],
           [0, 0, 0, 1, 0, 0], [0, 0, 0, 0, 1, 0], [0, 0, 0, 0, 0, 0]]
          (projector singular_measurement) (meas_covariance singular_measurement)) = 0"
  by (simp add: innovation_covariance_def singular_measurement_def la_defs transpose.simps)

text \<open>
  C1.  Let the track state carry an uncalibrated measurement and a predicted state with
  parameter vector \<open>m\<close> and covariance \<open>P\<close> (and, where the asserts are compiled in, neither a
  calibrated measurement nor a filtered state), let the calibrated measurement have
  projector \<open>H\<close>, covariance \<open>V\<close> and residual \<open>r = measured - H * m\<close>, and let
  \<open>H * P * H\<^sup>T + V\<close> have the finite inverse \<open>Si\<close>.  Then the updater returns, and with
  \<open>K = P * H\<^sup>T * Si\<close> the filtered state it stores has the parameter vector \<open>m + K * r\<close>
  and the covariance \<open>(Identity - K * H) * P\<close>, on the reference surface of the prediction.
\<close>

theorem gain_matrix_update:
  assumes "ndebug \<or> (calibrated ts = None \<and> filtered ts = None)"
    and "uncalibrated ts = Some unc"
    and "predicted ts = Some pred"
    and "covariance pred = Some P"
    and "calibrator unc pred = cal"
    and "projector cal = H"
    and "meas_covariance cal = V"
    and "inverse_mat (mat_add (mat_mul (mat_mul H P) (transpose H)) V) = Finite Si"
    and "K = mat_mul (mat_mul P (transpose H)) Si"
    and "r = vsub (meas_parameters cal) (mat_vec H (parameters pred))"
  shows "\<exists>ts'. GainMatrixUpdater ndebug calibrator ts = Inr (ts', True) \<and>
           filtered ts' =
             Some (Finite \<lparr>parameters = vadd (parameters pred) (mat_vec K r),
                            covariance =
                              Some (mat_mul
                                     (mat_sub (Identity (length (parameters pred))) (mat_mul K H))
                                     P),
                            referenceSurface = referenceSurface pred\<rparr>)"
  using assms
  by (auto simp add: GainMatrixUpdater_def visit_calibrated_def gain_matrix_def
      innovation_covariance_def residual_def Let_def)

theorem gain_matrix_update_witness:
  "\<exists>ts'. GainMatrixUpdater False VoidMeasurementCalibrator test_trackState = Inr (ts', True) \<and>
     filtered ts' =
       Some (Finite \<lparr>parameters = [1 / 30, 37 / 80, 0.5 * M_PI, 0.3 * M_PI, 0.01, 0],
                      covariance =
                        Some [[2 / 75, 0, 0, 0, 0, 0], [0, 3 / 40, 0, 0, 0, 0],
                              [0, 0, 1, 0, 0, 0], [0, 0, 0, 1, 0, 0],
                              [0, 0, 0, 0, 1, 0], [0, 0, 0, 0, 0, 0]],
                      referenceSurface = ()\<rparr>)"
proof -
  have h1: "False \<or> (calibrated test_trackState = None \<and> filtered test_trackState = None)"
    by (simp add: test_trackState_def)
  have h2: "uncalibrated test_trackState = Some test_measurement"
    by (simp add: test_trackState_def)
  have h3: "predicted test_trackState = Some test_predicted"
    by (simp add: test_trackState_def)
  have h4: "covariance test_predicted =
      Some [[0.08, 0, 0, 0, 0, 0], [0, 0.3, 0, 0, 0, 0], [0, 0, 1, 0, 0, 0],
            [0, 0, 0, 1, 0, 0], [0, 0, 0, 0, 1, 0], [0, 0, 0, 0, 0, 0]]"
    by (simp add: test_predicted_def)
  have h5: "VoidMeasurementCalibrator test_measurement test_predicted = test_measurement"
    by (simp add: VoidMeasurementCalibrator_def)
  have K: "mat_mul (mat_mul [[0.08, 0, 0, 0, 0, 0], [0, 0.3, 0, 0, 0, 0], [0, 0, 1, 0, 0, 0],
            [0, 0, 0, 1, 0, 0], [0, 0, 0, 0, 1, 0], [0, 0, 0, 0, 0, 0]]
            (transpose (projector test_measurement))) [[25 / 3, 0], [0, 5 / 2]]
         = [[2 / 3, 0], [0, 3 / 4], [0, 0], [0, 0], [0, 0], [0, 0]]"
    by (simp add: test_measurement_def la_defs transpose.simps)
  have r: "vsub (meas_parameters test_measurement)
             (mat_vec (projector test_measurement) (parameters test_predicted)) = [- 2 / 5, - 1 / 20]"
    by (simp add: test_measurement_def test_predicted_def la_defs)
  show ?thesis
    using gain_matrix_update [where calibrator = VoidMeasurementCalibrator
        and H = "projector test_measurement" and V = "meas_covariance test_measurement",
        OF h1 h2 h3 h4 h5 refl refl test_innovation_inverse K [symmetric] r [symmetric]]
    by (simp add: test_predicted_def test_measurement_def la_defs transpose.simps upt_rec)
qed

text \<open>
  C2.  Whenever the updater stores a finite filtered state, the chi-square it stores is
  \<open>r\<^sup>T * ((Identity - H * K) * V)\<^sup>-\<^sup>1 * r\<close> with \<open>r = measured - H * m\<^sub>f\<close> the residual of the
  filtered parameters \<open>m\<^sub>f\<close> (non-finite when that matrix has determinant zero).  In the
  scenario of the regression test the filtered parameters and covariance agree with the
  stored reference values within \<open>10\<^sup>-\<^sup>6\<close> and the chi-square with 1.33958 within \<open>10\<^sup>-\<^sup>4\<close>.
\<close>

theorem chi2_of_filtered_state:
  "(GainMatrixUpdater ndebug calibrator ts = Inr (ts', ok) \<and>
    filtered ts' = Some (Finite filt) \<and>
    predicted ts = Some pred \<and> covariance pred = Some P \<and>
    calibrated ts' = Some cal \<and>
    gain_matrix P (projector cal) (meas_covariance cal) = Finite K \<longrightarrow>
    chi2 ts' =
      (case inverse_mat (mat_mul (mat_sub (Identity (length (projector cal)))
                                    (mat_mul (projector cal) K)) (meas_covariance cal)) of
         NonFinite \<Rightarrow> NonFinite
       | Finite Ri \<Rightarrow>
           Finite (dot (row_times (vsub (meas_parameters cal)
                                     (mat_vec (projector cal) (parameters filt))) Ri)
                     (vsub (meas_parameters cal) (mat_vec (projector cal) (parameters filt)))))) \<and>
   (\<exists>ts2 filt2 C2 c2.
      GainMatrixUpdater False VoidMeasurementCalibrator test_trackState = Inr (ts2, True) \<and>
      filtered ts2 = Some (Finite filt2) \<and>
      close_abs (parameters filt2) expPar (1 / 10 ^ 6) \<and>
      covariance filt2 = Some C2 \<and> close_abs_mat C2 expCov (1 / 10 ^ 6) \<and>
      chi2 ts2 = Finite c2 \<and> \<bar>c2 - expChi2\<bar> \<le> 1 / 10 ^ 4)"
proof
  show "GainMatrixUpdater ndebug calibrator ts = Inr (ts', ok) \<and>
    filtered ts' = Some (Finite filt) \<and>
    predicted ts = Some pred \<and> covariance pred = Some P \<and>
    calibrated ts' = Some cal \<and>
    gain_matrix P (projector cal) (meas_covariance cal) = Finite K \<longrightarrow>
    chi2 ts' =
      (case inverse_mat (mat_mul (mat_sub (Identity (length (projector cal)))
                                    (mat_mul (projector cal) K)) (meas_covariance cal)) of
         NonFinite \<Rightarrow> NonFinite
       | Finite Ri \<Rightarrow>
           Finite (dot (row_times (vsub (meas_parameters cal)
                                     (mat_vec (projector cal) (parameters filt))) Ri)
                     (vsub (meas_parameters cal) (mat_vec (projector cal) (parameters filt)))))"
    by (auto simp add: GainMatrixUpdater_def visit_calibrated_def filtered_chi2_def residual_def
        Let_def split: if_splits option.splits fp.splits)
next
  let ?filt = "\<lparr>parameters = [1 / 30, 37 / 80, 0.5 * M_PI, 0.3 * M_PI, 0.01, 0],
               covariance = Some [[2 / 75, 0, 0, 0, 0, 0], [0, 3 / 40, 0, 0, 0, 0],
                     [0, 0, 1, 0, 0, 0], [0, 0, 0, 1, 0, 0],
                     [0, 0, 0, 0, 1, 0], [0, 0, 0, 0, 0, 0]],
               referenceSurface = ()\<rparr>"
  let ?ts2 = "test_trackState\<lparr>calibrated := Some test_measurement, chi2 := Finite (643 / 480),
            filtered := Some (Finite ?filt)\<rparr>"
  have p: "close_abs (parameters ?filt) expPar (1 / 10 ^ 6)"
    by (simp add: close_abs_def expPar_def M_PI_def)
  have c: "close_abs_mat [[2 / 75, 0, 0, 0, 0, 0], [0, 3 / 40, 0, 0, 0, 0],
                     [0, 0, 1, 0, 0, 0], [0, 0, 0, 1, 0, 0],
                     [0, 0, 0, 0, 1, 0], [0, 0, 0, 0, 0, 0]] expCov (1 / 10 ^ 6)"
    by (simp add: close_abs_mat_def close_abs_def expCov_def)
  have x: "\<bar>643 / 480 - expChi2\<bar> \<le> 1 / 10 ^ 4"
    by (simp add: expChi2_def)
  have run: "GainMatrixUpdater False VoidMeasurementCalibrator test_trackState = Inr (?ts2, True)"
    by (rule test_run)
  have "GainMatrixUpdater False VoidMeasurementCalibrator test_trackState = Inr (?ts2, True) \<and>
            filtered ?ts2 = Some (Finite ?filt) \<and>
            close_abs (parameters ?filt) expPar (1 / 10 ^ 6) \<and>
            covariance ?filt = Some [[2 / 75, 0, 0, 0, 0, 0], [0, 3 / 40, 0, 0, 0, 0],
                     [0, 0, 1, 0, 0, 0], [0, 0, 0, 1, 0, 0],
                     [0, 0, 0, 0, 1, 0], [0, 0, 0, 0, 0, 0]] \<and>
            close_abs_mat [[2 / 75, 0, 0, 0, 0, 0], [0, 3 / 40, 0, 0, 0, 0],
                     [0, 0, 1, 0, 0, 0], [0, 0, 0, 1, 0, 0],
                     [0, 0, 0, 0, 1, 0], [0, 0, 0, 0, 0, 0]] expCov (1 / 10 ^ 6) \<and>
            chi2 ?ts2 = Finite (643 / 480) \<and> \<bar>643 / 480 - expChi2\<bar> \<le> 1 / 10 ^ 4"
    using p c x run by simp
  then show "\<exists>ts2 filt2 C2 c2.
            GainMatrixUpdater False VoidMeasurementCalibrator test_trackState = Inr (ts2, True) \<and>
            filtered ts2 = Some (Finite filt2) \<and>
            close_abs (parameters filt2) expPar (1 / 10 ^ 6) \<and>
            covariance filt2 = Some C2 \<and> close_abs_mat C2 expCov (1 / 10 ^ 6) \<and>
            chi2 ts2 = Finite c2 \<and> \<bar>c2 - expChi2\<bar> \<le> 1 / 10 ^ 4"
    by blast
qed

theorem chi2_of_filtered_state_witness:
  "GainMatrixUpdater False VoidMeasurementCalibrator test_trackState =
     Inr (test_trackState\<lparr>calibrated := Some test_measurement, chi2 := Finite (643 / 480),
            filtered := Some (Finite \<lparr>parameters = [1 / 30, 37 / 80, 0.5 * M_PI, 0.3 * M_PI, 0.01, 0],
               covariance = Some [[2 / 75, 0, 0, 0, 0, 0], [0, 3 / 40, 0, 0, 0, 0],
                     [0, 0, 1, 0, 0, 0], [0, 0, 0, 1, 0, 0],
                     [0, 0, 0, 0, 1, 0], [0, 0, 0, 0, 0, 0]],
               referenceSurface = ()\<rparr>)\<rparr>, True) \<and>
   gain_matrix [[0.08, 0, 0, 0, 0, 0], [0, 0.3, 0, 0, 0, 0], [0, 0, 1, 0, 0, 0],
        [0, 0, 0, 1, 0, 0], [0, 0, 0, 0, 1, 0], [0, 0, 0, 0, 0, 0]]
      (projector test_measurement) (meas_covariance test_measurement)
      = Finite [[2 / 3, 0], [0, 3 / 4], [0, 0], [0, 0], [0, 0], [0, 0]] \<and>
   chi2 (test_trackState\<lparr>calibrated := Some test_measurement, chi2 := Finite (643 / 480),
            filtered := Some (Finite \<lparr>parameters = [1 / 30, 37 / 80, 0.5 * M_PI, 0.3 * M_PI, 0.01, 0],
               covariance = Some [[2 / 75, 0, 0, 0, 0, 0], [0, 3 / 40, 0, 0, 0, 0],
                     [0, 0, 1, 0, 0, 0], [0, 0, 0, 1, 0, 0],
                     [0, 0, 0, 0, 1, 0], [0, 0, 0, 0, 0, 0]],
               referenceSurface = ()\<rparr>)\<rparr>) =
     Finite (dot (row_times [- 2 / 15, - 1 / 80] [[75, 0], [0, 40]]) [- 2 / 15, - 1 / 80]) \<and>
   dot (row_times [- 2 / 15, - 1 / 80] [[75, 0], [0, 40]]) [- 2 / 15, - 1 / 80] = 643 / 480"
proof -
  let ?filt = "\<lparr>parameters = [1 / 30, 37 / 80, 0.5 * M_PI, 0.3 * M_PI, 0.01, 0],
               covariance = Some [[2 / 75, 0, 0, 0, 0, 0], [0, 3 / 40, 0, 0, 0, 0],
                     [0, 0, 1, 0, 0, 0], [0, 0, 0, 1, 0, 0],
                     [0, 0, 0, 0, 1, 0], [0, 0, 0, 0, 0, 0]],
               referenceSurface = ()\<rparr>"
  let ?ts2 = "test_trackState\<lparr>calibrated := Some test_measurement, chi2 := Finite (643 / 480),
            filtered := Some (Finite ?filt)\<rparr>"
  have h2: "filtered ?ts2 = Some (Finite ?filt)" by simp
  have h3: "predicted test_trackState = Some test_predicted"
    by (simp add: test_trackState_def)
  have h4: "covariance test_predicted =
      Some [[0.08, 0, 0, 0, 0, 0], [0, 0.3, 0, 0, 0, 0], [0, 0, 1, 0, 0, 0],
            [0, 0, 0, 1, 0, 0], [0, 0, 0, 0, 1, 0], [0, 0, 0, 0, 0, 0]]"
    by (simp add: test_predicted_def)
  have h5: "calibrated ?ts2 = Some test_measurement" by simp
  have r: "[- 2 / 15, - 1 / 80] =
      vsub (meas_parameters test_measurement)
        (mat_vec (projector test_measurement) (parameters ?filt))"
    by (simp add: test_measurement_def la_defs)
  have Ri: "inverse_mat (mat_mul (mat_sub (Identity (length (projector test_measurement)))
              (mat_mul (projector test_measurement)
                 [[2 / 3, 0], [0, 3 / 4], [0, 0], [0, 0], [0, 0], [0, 0]]))
              (meas_covariance test_measurement)) = Finite [[75, 0], [0, 40]]"
    by (simp add: test_measurement_def inverse_mat_def cofactor_def del_def la_defs
        transpose.simps Let_def upt_rec nth_Cons')
  have v: "dot (row_times [- 2 / 15, - 1 / 80] [[75, 0], [0, 40]]) [- 2 / 15, - 1 / 80] = 643 / 480"
    by (simp add: la_defs transpose.simps)
  have g: "gain_matrix [[0.08, 0, 0, 0, 0, 0], [0, 0.3, 0, 0, 0, 0], [0, 0, 1, 0, 0, 0],
        [0, 0, 0, 1, 0, 0], [0, 0, 0, 0, 1, 0], [0, 0, 0, 0, 0, 0]]
      (projector test_measurement) (meas_covariance test_measurement)
      = Finite [[2 / 3, 0], [0, 3 / 4], [0, 0], [0, 0], [0, 0], [0, 0]]"
    by (rule test_gain)
  from chi2_of_filtered_state [where calibrator = VoidMeasurementCalibrator and ndebug = False
      and ts = test_trackState and ts' = ?ts2 and ok = True and filt = ?filt
      and pred = test_predicted and cal = test_measurement
      and P = "[[0.08, 0, 0, 0, 0, 0], [0, 0.3, 0, 0, 0, 0], [0, 0, 1, 0, 0, 0],
        [0, 0, 0, 1, 0, 0], [0, 0, 0, 0, 1, 0], [0, 0, 0, 0, 0, 0]]"
      and K = "[[2 / 3, 0], [0, 3 / 4], [0, 0], [0, 0], [0, 0], [0, 0]]"]
    test_run [of False] h2 h3 h4 h5 g
  have "chi2 ?ts2 =
      Finite (dot (row_times [- 2 / 15, - 1 / 80] [[75, 0], [0, 40]]) [- 2 / 15, - 1 / 80])"
    unfolding Ri r [symmetric] by simp
  with v g test_run [of False] show ?thesis by blast
qed

text \<open>
  C6 as stated fails: on a track state whose innovation covariance is the 1x1 zero matrix the
  updater signals nothing.  It returns true and stores a filtered state and a chi-square
  that are not finite.
\<close>

theorem singular_update_counterexample:
  "det (innovation_covariance
          [[0.08, 0, 0, 0, 0, 0], [0, 0.3, 0, 0, 0, 0], [0, 0, 1, 0, 0, 0],
           [0, 0, 0, 1, 0, 0], [0, 0, 0, 0, 1, 0], [0, 0, 0, 0, 0, 0]]
          (projector singular_measurement) (meas_covariance singular_measurement)) = 0 \<and>
   GainMatrixUpdater False VoidMeasurementCalibrator singular_trackState =
     Inr (singular_trackState\<lparr>calibrated := Some singular_measurement, chi2 := NonFinite,
            filtered := Some NonFinite\<rparr>, True)"
  using singular_innovation singular_run [of False] by blast

text \<open>
  C6, amended.  On a track state that meets the preconditions of the call operator and whose
  innovation covariance \<open>H * P * H\<^sup>T + V\<close> or measurement covariance \<open>V\<close> has determinant
  zero, the updater signals no error: there is no check of invertibility and no error result,
  it returns true, and the track state it leaves carries the calibrated measurement and a
  filtered state.
\<close>

theorem singular_update_not_signalled:
  assumes "ndebug \<or> (calibrated ts = None \<and> filtered ts = None)"
    and "uncalibrated ts = Some unc"
    and "predicted ts = Some pred"
    and "covariance pred = Some P"
    and "calibrator unc pred = cal"
    and "projector cal = H"
    and "meas_covariance cal = V"
    and "det (mat_add (mat_mul (mat_mul H P) (transpose H)) V) = 0 \<or> det V = 0"
  shows "(\<forall>e. GainMatrixUpdater ndebug calibrator ts \<noteq> Inl e) \<and>
         (\<exists>ts'. GainMatrixUpdater ndebug calibrator ts = Inr (ts', True) \<and>
                 calibrated ts' = Some cal \<and> filtered ts' \<noteq> None)"
  using assms(1-5)
  by (auto simp add: GainMatrixUpdater_def visit_calibrated_def Let_def split: fp.splits)

theorem singular_update_not_signalled_witness:
  "det (mat_add (mat_mul (mat_mul (projector singular_measurement)
        [[0.08, 0, 0, 0, 0, 0], [0, 0.3, 0, 0, 0, 0], [0, 0, 1, 0, 0, 0],
         [0, 0, 0, 1, 0, 0], [0, 0, 0, 0, 1, 0], [0, 0, 0, 0, 0, 0]])
        (transpose (projector singular_measurement))) (meas_covariance singular_measurement)) = 0 \<and>
   (\<forall>e. GainMatrixUpdater False VoidMeasurementCalibrator singular_trackState \<noteq> Inl e) \<and>
   (\<exists>ts'. GainMatrixUpdater False VoidMeasurementCalibrator singular_trackState = Inr (ts', True) \<and>
           calibrated ts' = Some singular_measurement \<and> filtered ts' \<noteq> None)"
proof -
  have h1: "False \<or> (calibrated singular_trackState = None \<and> filtered singular_trackState = None)"
    by (simp add: singular_trackState_def test_trackState_def)
  have h2: "uncalibrated singular_trackState = Some singular_measurement"
    by (simp add: singular_trackState_def)
  have h3: "predicted singular_trackState = Some test_predicted"
    by (simp add: singular_trackState_def test_trackState_def)
  have h4: "covariance test_predicted =
      Some [[0.08, 0, 0, 0, 0, 0], [0, 0.3, 0, 0, 0, 0], [0, 0, 1, 0, 0, 0],
            [0, 0, 0, 1, 0, 0], [0, 0, 0, 0, 1, 0], [0, 0, 0, 0, 0, 0]]"
    by (simp add: test_predicted_def)
  have h5: "VoidMeasurementCalibrator singular_measurement test_predicted = singular_measurement"
    by (simp add: VoidMeasurementCalibrator_def)
  have z: "det (mat_add (mat_mul (mat_mul (projector singular_measurement)
        [[0.08, 0, 0, 0, 0, 0], [0, 0.3, 0, 0, 0, 0], [0, 0, 1, 0, 0, 0],
            [0, 0, 0, 1, 0, 0], [0, 0, 0, 0, 1, 0], [0, 0, 0, 0, 0, 0]])
        (transpose (projector singular_measurement))) (meas_covariance singular_measurement)) = 0"
    using singular_innovation by (simp add: innovation_covariance_def)
  show ?thesis
    using singular_update_not_signalled [where calibrator = VoidMeasurementCalibrator,
        OF h1 h2 h3 h4 h5 refl refl disjI1 [OF z]] z
    by blast
qed

text \<open>
  C10.  The call operator never returns false: whenever it returns, the boolean is true.
  And it does return, with true, on every track state that carries an uncalibrated
  measurement and a predicted state with its covariance; where the asserts are compiled in
  (\<open>ndebug\<close> false) the state must, as they demand, carry neither a calibrated measurement
  nor a filtered state yet.
\<close>

theorem updater_returns_true:
  "(\<forall>ts' ok. GainMatrixUpdater ndebug calibrator ts = Inr (ts', ok) \<longrightarrow> ok) \<and>
   (uncalibrated ts \<noteq> None \<and> predicted ts = Some pred \<and> covariance pred \<noteq> None \<and>
    (ndebug \<or> (calibrated ts = None \<and> filtered ts = None)) \<longrightarrow>
    (\<exists>ts'. GainMatrixUpdater ndebug calibrator ts = Inr (ts', True)))"
  by (auto simp add: GainMatrixUpdater_def Let_def split: option.splits)

theorem updater_returns_true_witness:
  "uncalibrated test_trackState \<noteq> None \<and>
   predicted test_trackState = Some test_predicted \<and>
   covariance test_predicted \<noteq> None \<and>
   calibrated test_trackState = None \<and> filtered test_trackState = None \<and>
   (\<exists>ts'. GainMatrixUpdater False VoidMeasurementCalibrator test_trackState = Inr (ts', True))"
proof -
  have h: "uncalibrated test_trackState \<noteq> None \<and>
      predicted test_trackState = Some test_predicted \<and>
      covariance test_predicted \<noteq> None \<and>
      (False \<or> (calibrated test_trackState = None \<and> filtered test_trackState = None))"
    by (simp add: test_trackState_def test_predicted_def)
  with updater_returns_true [of False VoidMeasurementCalibrator test_trackState test_predicted]
  show ?thesis by blast
qed

section \<open>Properties of the stepper state and of the straight-line stepper\<close>

lemma dot_self_nonneg: "0 \<le> dot v v"
  unfolding dot_def by (induction v) simp_all

lemma dot_self_scaled: "dot (map (\<lambda>x. x / c) v) (map (\<lambda>x. x / c) v) = dot v v / (c * c)"
  unfolding dot_def by (induction v) (simp_all add: add_divide_distrib)

lemma norm_vec_divided:
  assumes "norm_vec v \<noteq> 0"
  shows "norm_vec (map (\<lambda>x. x / norm_vec v) v) = 1"
proof -
  have pos: "0 < dot v v"
    using assms dot_self_nonneg [of v] by (cases "dot v v = 0") (auto simp add: norm_vec_def)
  have "dot (map (\<lambda>x. x / norm_vec v) v) (map (\<lambda>x. x / norm_vec v) v)
          = dot v v / (norm_vec v * norm_vec v)"
    by (rule dot_self_scaled)
  also have "norm_vec v * norm_vec v = dot v v"
    using pos by (simp add: norm_vec_def)
  finally show ?thesis
    using pos by (simp add: norm_vec_def)
qed

lemma norm_vec_normalized: "norm_vec (normalized v) = 1 \<longleftrightarrow> norm_vec v \<noteq> 0"
proof (cases "0 < dot v v")
  case True
  then have nz: "norm_vec v \<noteq> 0" by (simp add: norm_vec_def)
  have "normalized v = map (\<lambda>x. x / norm_vec v) v"
    using True by (simp add: normalized_def norm_vec_def Let_def)
  with nz norm_vec_divided [OF nz] show ?thesis by simp
next
  case False
  then have z: "dot v v = 0" using dot_self_nonneg [of v] by simp
  then show ?thesis by (simp add: normalized_def norm_vec_def Let_def)
qed

lemma sl_D_eq:
  "sl_D h m pp d =
     mat_add (Identity 8)
       [[0, 0, 0, 0, h, 0, 0, 0],
        [0, 0, 0, 0, 0, h, 0, 0],
        [0, 0, 0, 0, 0, 0, h, 0],
        [0, 0, 0, 0, 0, 0, 0, h * m * m / (pp * d)],
        [0, 0, 0, 0, 0, 0, 0, 0],
        [0, 0, 0, 0, 0, 0, 0, 0],
        [0, 0, 0, 0, 0, 0, 0, 0],
        [0, 0, 0, 0, 0, 0, 0, 0]]"
  by (simp add: sl_D_def set_entry_def set_block_def set_segment_def Identity_def upt_rec
      smult_def mat_add_def vadd_def)

text \<open>
  C8.  One call of the straight-line step with step size \<open>h\<close> returns \<open>h\<close>, advances the
  position by \<open>h * dir\<close>, leaves the direction (and the options) alone and adds \<open>h\<close> to the
  accumulated path.  With covariance transport, a momentum \<open>p\<close> other than zero and a finite
  transport jacobian \<open>J\<close>, the new transport jacobian is \<open>D * J\<close> where \<open>D\<close> is the identity plus
  \<open>h\<close> in the translation block (rows 0..2, columns 4..6) plus the time entry
  \<open>h * mass\<^sup>2 / (p * dtds)\<close> at row 3, column 7, \<open>dtds = hypot(1, mass / p)\<close>; without
  covariance transport the jacobian is left alone.
\<close>

theorem straight_line_step:
  assumes "sl_step state = (state', h)"
  shows "h = stepSize (stepping state) \<and>
         pos (stepping state') = vadd (pos (stepping state)) (smult h (dir (stepping state))) \<and>
         dir (stepping state') = dir (stepping state) \<and>
         pathAccumulated (stepping state') = pathAccumulated (stepping state) + h \<and>
         options state' = options state \<and>
         (covTransport (stepping state) \<and> p (stepping state) \<noteq> 0 \<and>
          jacTransport (stepping state) = Finite J \<longrightarrow>
            jacTransport (stepping state') =
              Finite (mat_mul
                (mat_add (Identity 8)
                   [[0, 0, 0, 0, h, 0, 0, 0],
                    [0, 0, 0, 0, 0, h, 0, 0],
                    [0, 0, 0, 0, 0, 0, h, 0],
                    [0, 0, 0, 0, 0, 0, 0,
                     h * mass (options state) * mass (options state) /
                       (p (stepping state) * hypot 1 (mass (options state) / p (stepping state)))],
                    [0, 0, 0, 0, 0, 0, 0, 0],
                    [0, 0, 0, 0, 0, 0, 0, 0],
                    [0, 0, 0, 0, 0, 0, 0, 0],
                    [0, 0, 0, 0, 0, 0, 0, 0]])
                J)) \<and>
         (\<not> covTransport (stepping state) \<longrightarrow>
            jacTransport (stepping state') = jacTransport (stepping state))"
  using assms
  by (auto simp add: sl_step_def Let_def sl_dtds_def fp_lift2_def sl_D_eq)

theorem straight_line_step_witness:
  "covTransport (stepping sl_test_state) \<and> p (stepping sl_test_state) \<noteq> 0 \<and>
   jacTransport (stepping sl_test_state) = Finite (Identity 8) \<and>
   pos (stepping (fst (sl_step sl_test_state))) = [11 / 5, 2, 23 / 5] \<and>
   dir (stepping (fst (sl_step sl_test_state))) = [3 / 5, 0, 4 / 5] \<and>
   pathAccumulated (stepping (fst (sl_step sl_test_state))) = 2 \<and>
   jacTransport (stepping (fst (sl_step sl_test_state))) =
     Finite (mat_mul
                (mat_add (Identity 8)
                   [[0, 0, 0, 0, 2, 0, 0, 0],
                    [0, 0, 0, 0, 0, 2, 0, 0],
                    [0, 0, 0, 0, 0, 0, 2, 0],
                    [0, 0, 0, 0, 0, 0, 0, 2 * 12 * 12 / (5 * hypot 1 (12 / 5))],
                    [0, 0, 0, 0, 0, 0, 0, 0],
                    [0, 0, 0, 0, 0, 0, 0, 0],
                    [0, 0, 0, 0, 0, 0, 0, 0],
                    [0, 0, 0, 0, 0, 0, 0, 0]])
                (Identity 8))"
proof -
  have s25: "sqrt 25 = 5"
    by (rule real_sqrt_unique) simp_all
  have st: "stepSize (stepping sl_test_state) = 2" "pos (stepping sl_test_state) = [1, 2, 3]"
    "dir (stepping sl_test_state) = [3 / 5, 0, 4 / 5]" "p (stepping sl_test_state) = 5"
    "covTransport (stepping sl_test_state)" "pathAccumulated (stepping sl_test_state) = 0"
    "jacTransport (stepping sl_test_state) = Finite (Identity 8)"
    "mass (options sl_test_state) = 12"
    by (simp_all add: sl_test_state_def State_init_def moving_parameters_def Let_def
        normalized_def norm_vec_def dot_def nav_value_def s25)
  obtain state' h where r: "sl_step sl_test_state = (state', h)"
    by (cases "sl_step sl_test_state")
  from straight_line_step [OF r, of "Identity 8"] st
  show ?thesis
    unfolding r by (simp add: vadd_def smult_def)
qed

text \<open>
  C7 as stated fails: the state made from a neutral particle at rest has the momentum
  \<open>p = 0\<close>, the charge \<open>q = 0\<close> and the zero vector as direction, \<open>update\<close> stores a zero
  momentum as it is given, and the straight-line step from that state divides the mass by
  \<open>p = 0\<close>, which leaves a propagated time that is not finite.
\<close>

theorem no_clamping_counterexample:
  "p (State_init (\<lambda>x d v. replicate 8 (replicate 6 0)) () rest_parameters forward 1) = 0 \<and>
   q (State_init (\<lambda>x d v. replicate 8 (replicate 6 0)) () rest_parameters forward 1) = 0 \<and>
   dir (State_init (\<lambda>x d v. replicate 8 (replicate 6 0)) () rest_parameters forward 1) = [0, 0, 0] \<and>
   p (update_free (stepping sl_test_state) [0, 0, 0] [0, 0, 0] 0 0) = 0 \<and>
   dt (stepping (fst (sl_step
         \<lparr>stepping = State_init (\<lambda>x d v. replicate 8 (replicate 6 0)) () rest_parameters forward 1,
          options = \<lparr>tolerance = 1 / 10 ^ 4, stepSizeCutOff = 1 / 10 ^ 3, mass = 12\<rparr>\<rparr>)))
     = NonFinite"
  by (simp add: State_init_def rest_parameters_def update_free_def sl_step_def sl_dtds_def
      fp_lift2_def Let_def normalized_def norm_vec_def dot_def)

text \<open>
  C7, amended.  The construction of the stepper state and the \<open>update\<close> from track
  parameters store the norm of the given momentum as \<open>p\<close> and the normalized momentum as
  direction; the \<open>update\<close> from single values stores the momentum and the direction handed
  in.  No minimum magnitude is put in their place: \<open>p\<close> is positive and the direction of
  unit length when the given momentum is not the zero vector, and both are zero when it is.
\<close>

theorem state_construction_stores_momentum:
  "p (State_init J gctx par ndir ssize) = norm_vec (par_momentum par) \<and>
   dir (State_init J gctx par ndir ssize) = normalized (par_momentum par) \<and>
   p (update G state par) = norm_vec (par_momentum par) \<and>
   dir (update G state par) = normalized (par_momentum par) \<and>
   p (update_free state x d up t) = up \<and>
   dir (update_free state x d up t) = d \<and>
   (norm_vec (par_momentum par) \<noteq> 0 \<longrightarrow>
      0 < p (State_init J gctx par ndir ssize) \<and>
      norm_vec (dir (State_init J gctx par ndir ssize)) = 1) \<and>
   (norm_vec (par_momentum par) = 0 \<longrightarrow>
      p (State_init J gctx par ndir ssize) = 0 \<and>
      norm_vec (dir (State_init J gctx par ndir ssize)) = 0)"
proof -
  have nn: "0 \<le> norm_vec (par_momentum par)"
    by (simp add: norm_vec_def dot_self_nonneg)
  have z: "norm_vec (par_momentum par) = 0 \<Longrightarrow> norm_vec (normalized (par_momentum par)) = 0"
    by (simp add: normalized_def norm_vec_def Let_def)
  show ?thesis
    using nn z norm_vec_normalized [of "par_momentum par"]
    by (auto simp add: State_init_def update_def update_free_def Let_def split: option.splits)
qed

theorem state_construction_stores_momentum_witness:
  "norm_vec (par_momentum moving_parameters) \<noteq> 0 \<and>
   p (State_init (\<lambda>x d v. replicate 8 (replicate 6 0)) () moving_parameters forward 2) = 5 \<and>
   norm_vec (dir (State_init (\<lambda>x d v. replicate 8 (replicate 6 0)) () moving_parameters forward 2)) = 1"
proof -
  have s25: "sqrt 25 = 5"
    by (rule real_sqrt_unique) simp_all
  have n: "norm_vec (par_momentum moving_parameters) = 5"
    by (simp add: moving_parameters_def norm_vec_def dot_def s25)
  have nz: "norm_vec (par_momentum moving_parameters) \<noteq> 0"
    using n by simp
  note t = state_construction_stores_momentum
    [of "\<lambda>x d v. replicate 8 (replicate 6 0)" "()" moving_parameters forward 2
        "\<lambda>pars g. []" "stepping sl_test_state" "[]" "[]" 0 0]
  have "p (State_init (\<lambda>x d v. replicate 8 (replicate 6 0)) () moving_parameters forward 2)
          = norm_vec (par_momentum moving_parameters)"
    and "norm_vec (dir (State_init (\<lambda>x d v. replicate 8 (replicate 6 0)) () moving_parameters
          forward 2)) = 1"
    using t nz by blast+
  with nz n show ?thesis by simp
qed

section \<open>Properties of the Runge-Kutta stepper\<close>

lemmas set_defs = set_sd_def set_ext_def set_cache_def set_stepSize_def

text \<open>A trial changes the Runge-Kutta data, the field cache and the extension only.\<close>

lemma try_frame:
  assumes "tryRungeKuttaStep E gf st e h = (ok, st1, h2, est)"
  shows "h2 = h * h \<and> options st1 = options st \<and>
         State.truncate (stepping st1) = State.truncate (stepping st) \<and>
         k1 (stepData (stepping st1)) = k1 (stepData (stepping st)) \<and>
         B_first (stepData (stepping st1)) = B_first (stepData (stepping st))"
  using assms
  by (auto simp add: tryRungeKuttaStep_def Let_def set_defs State.truncate_def
      split: prod.splits if_splits)

lemma try_fields:
  assumes "tryRungeKuttaStep E gf st e h = (ok, st1, h2, est)"
  shows "stepSize (stepping st1) = stepSize (stepping st)"
    and "navDir (stepping st1) = navDir (stepping st)"
    and "pos (stepping st1) = pos (stepping st)"
    and "dir (stepping st1) = dir (stepping st)"
    and "covTransport (stepping st1) = covTransport (stepping st)"
    and "pathAccumulated (stepping st1) = pathAccumulated (stepping st)"
    and "options st1 = options st"
    and "h2 = h * h"
proof -
  from try_frame [OF assms]
  have t: "State.truncate (stepping st1) = State.truncate (stepping st)"
    and o: "options st1 = options st" and h: "h2 = h * h"
    by blast+
  from t show "stepSize (stepping st1) = stepSize (stepping st)"
    by (simp add: State.truncate_def)
  from t show "navDir (stepping st1) = navDir (stepping st)"
    by (simp add: State.truncate_def)
  from t show "pos (stepping st1) = pos (stepping st)"
    by (simp add: State.truncate_def)
  from t show "dir (stepping st1) = dir (stepping st)"
    by (simp add: State.truncate_def)
  from t show "covTransport (stepping st1) = covTransport (stepping st)"
    by (simp add: State.truncate_def)
  from t show "pathAccumulated (stepping st1) = pathAccumulated (stepping st)"
    by (simp add: State.truncate_def)
  from o show "options st1 = options st" .
  from h show "h2 = h * h" .
qed

text \<open>
  When the three extension methods of a trial succeed, the trial reaches the estimate.
\<close>

lemma try_estimate:
  assumes "tryRungeKuttaStep E gf st e h = (ok, st1, h2, est)"
    and "\<And>s kn B hh kp. fst (ext_k2 E s kn B hh kp)"
    and "\<And>s kn B hh kp. fst (ext_k3 E s kn B hh kp)"
    and "\<And>s kn B hh kp. fst (ext_k4 E s kn B hh kp)"
  shows "est = max (h * h * lpNorm1 (vadd (vsub (vsub (k1 (stepData (stepping st1)))
                       (k2 (stepData (stepping st1)))) (k3 (stepData (stepping st1))))
                       (k4 (stepData (stepping st1))))) (1 / 10 ^ 20) \<and>
         ok = (est \<le> tolerance (options st))"
proof -
  have k2: "\<And>s kn B hh kp a b c. ext_k2 E s kn B hh kp = (a, b, c) \<Longrightarrow> a"
    using assms(2) by (metis fst_conv)
  have k3: "\<And>s kn B hh kp a b c. ext_k3 E s kn B hh kp = (a, b, c) \<Longrightarrow> a"
    using assms(3) by (metis fst_conv)
  have k4: "\<And>s kn B hh kp a b c. ext_k4 E s kn B hh kp = (a, b, c) \<Longrightarrow> a"
    using assms(4) by (metis fst_conv)
  show ?thesis
    using assms(1)
    by (auto simp add: tryRungeKuttaStep_def Let_def set_defs
        split: prod.splits if_splits dest: k2 k3 k4)
qed

text \<open>The scaling of a step whose estimate exceeds the tolerance.\<close>

lemma scaling_of_failed:
  assumes "tol < est" and "1 / 10 ^ 20 \<le> est"
  shows "stepSizeScaling tol est \<noteq> 1"
    and "0 \<le> tol \<Longrightarrow> stepSizeScaling tol est = min (max 0.25 (root 4 (tol / (2 * est)))) 4"
    and "0.25 \<le> stepSizeScaling tol est" and "stepSizeScaling tol est < 1"
proof -
  have e: "0 < est" using assms(2) by (rule less_le_trans [rotated]) simp
  have a: "\<bar>2 * est\<bar> = 2 * est" using e by simp
  have lt: "tol / (2 * est) < 1 / 2"
    using assms(1) e by (simp add: field_simps)
  have r: "0 \<le> tol \<Longrightarrow> root 4 (tol / (2 * est)) < 1"
  proof -
    assume t: "0 \<le> tol"
    have "tol / (2 * est) < 1"
      using lt by simp
    then have "root 4 (tol / (2 * est)) < root 4 1"
      by (rule real_root_less_mono [rotated]) simp
    then show ?thesis by simp
  qed
  have ne: "est \<noteq> 0" using e by simp
  have pos: "0 \<le> tol \<Longrightarrow> \<not> tol / (2 * est) < 0"
    using e by (simp add: not_less)
  have neg: "\<not> 0 \<le> tol \<Longrightarrow> tol / (2 * est) < 0"
    using e by (simp add: divide_neg_pos)
  have eq: "0 \<le> tol \<Longrightarrow> stepSizeScaling tol est = min (max 0.25 (root 4 (tol / (2 * est)))) 4"
    using ne pos unfolding stepSizeScaling_def a by simp
  have eqn: "\<not> 0 \<le> tol \<Longrightarrow> stepSizeScaling tol est = 0.25"
    using ne neg unfolding stepSizeScaling_def a by simp
  define y where "y = root 4 (tol / (2 * est))"
  have bounds: "\<And>z::real. 0.25 \<le> min (max 0.25 z) 4"
    "\<And>z::real. z < 1 \<Longrightarrow> min (max 0.25 z) 4 < 1"
    by simp_all
  show s4: "stepSizeScaling tol est < 1"
  proof (cases "0 \<le> tol")
    case True
    have "y < 1" unfolding y_def by (rule r [OF True])
    then have "min (max 0.25 y) 4 < 1" by (rule bounds(2))
    then show ?thesis unfolding eq [OF True] y_def .
  next
    case False
    with eqn show ?thesis by simp
  qed
  then show "stepSizeScaling tol est \<noteq> 1" by simp
  show "0 \<le> tol \<Longrightarrow> stepSizeScaling tol est = min (max 0.25 (root 4 (tol / (2 * est)))) 4"
    by (rule eq)
  show "0.25 \<le> stepSizeScaling tol est"
  proof (cases "0 \<le> tol")
    case True
    show ?thesis unfolding eq [OF True] by (rule bounds(1))
  next
    case False
    with eqn show ?thesis by simp
  qed
qed

text \<open>One pass of the loop after a trial that returned false.\<close>

lemma rk_loop_failed:
  assumes "tryRungeKuttaStep E gf st e (stepSize (stepping st)) = (False, st1, h2, est)"
    and "stepSizeScaling (tolerance (options st1)) est \<noteq> 1"
    and "st2 = set_stepSize (stepSize (stepping st1) * stepSizeScaling (tolerance (options st1)) est) st1"
  shows "rk_loop mm E gf st e n =
           (if n + 1 = 100
            then Done False (set_stepSize (nav_value (navDir (stepping st2)) * mm) st2) h2 (n + 1)
            else if stepSize (stepping st2) * stepSize (stepping st2)
                    < stepSizeCutOff (options st2) * stepSizeCutOff (options st2)
                 then Stalled st2
                 else rk_loop mm E gf st2 est (n + 1))"
  by (subst rk_loop.simps) (simp add: assms Let_def)

lemma rk_loop_accepted:
  assumes "tryRungeKuttaStep E gf st e (stepSize (stepping st)) = (True, st1, h2, est)"
  shows "rk_loop mm E gf st e n = Done True st1 h2 n"
  by (subst rk_loop.simps) (simp add: assms)

text \<open>The loop entered at any of its passes ends as the loop entered at the start does.\<close>

lemma rk_retries_loop:
  assumes "rk_retries mm E gf a b"
  shows "rk_loop mm E gf (fst a) (fst (snd a)) (snd (snd a))
           = rk_loop mm E gf (fst b) (fst (snd b)) (snd (snd b))"
  using assms
proof (induction rule: rk_retries.induct)
  case (rk_entry a)
  show ?case by simp
next
  case (rk_retry a state error_estimate stepAttempts state1 h2 est state2)
  from rk_loop_failed [OF rk_retry.hyps(2) rk_retry.hyps(3) rk_retry.hyps(4), of mm stepAttempts]
    rk_retry.hyps(5) rk_retry.hyps(6) rk_retry.IH
  show ?case by simp
qed

text \<open>The counter stays below 100 at every pass.\<close>

lemma unat_succ_le_99:
  fixes n :: "32 word"
  assumes "unat n \<le> 99" and "n + 1 \<noteq> 100"
  shows "unat (n + 1) \<le> 99"
proof -
  have "unat (n + 1) = unat n + 1"
    using assms(1) by (simp add: unat_word_ariths)
  moreover have "unat (n + 1) \<noteq> 100"
  proof
    assume "unat (n + 1) = 100"
    then have "(of_nat (unat (n + 1)) :: 32 word) = of_nat 100"
      by (simp only:)
    then have "n + 1 = 100"
      by simp
    with assms(2) show False by simp
  qed
  ultimately show ?thesis using assms(1) by simp
qed

lemma rk_retries_bounded:
  assumes "rk_retries mm E gf a b" and "unat (snd (snd a)) \<le> 99"
  shows "unat (snd (snd b)) \<le> 99"
  using assms
  by (induction rule: rk_retries.induct) (simp_all add: unat_succ_le_99)

text \<open>When the loop is left because a trial passed, \<open>h2\<close> is the square of the step size.\<close>

lemma rk_loop_accepted_h2:
  assumes "rk_loop mm E gf st e n = Done True st' h2 n'"
  shows "h2 = stepSize (stepping st') * stepSize (stepping st') \<and>
         (\<exists>stA eA est.
            tryRungeKuttaStep E gf stA eA (stepSize (stepping stA)) = (True, st', h2, est))"
  using assms
proof (induction mm E gf st e n rule: rk_loop.induct)
  case (1 one_mm E getField state error_estimate stepAttempts)
  obtain ok state1 h2a est where t:
    "tryRungeKuttaStep E getField state error_estimate (stepSize (stepping state))
       = (ok, state1, h2a, est)"
    by (metis prod_cases4)
  show ?case
  proof (cases ok)
    case True
    with t "1.prems" have "st' = state1" "h2 = h2a"
      by (simp_all add: rk_loop_accepted)
    with try_fields(1,8) [OF t] t True show ?thesis by auto
  next
    case False
    let ?s = "stepSizeScaling (tolerance (options state1)) est"
    let ?st2 = "set_stepSize (stepSize (stepping state1) * ?s) state1"
    have tf: "tryRungeKuttaStep E getField state error_estimate (stepSize (stepping state))
                = (False, state1, h2a, est)"
      using t False by simp
    have ne: "?s \<noteq> 1"
    proof
      assume "?s = 1"
      then have "rk_loop one_mm E getField state error_estimate stepAttempts
                   = Done False state1 h2a stepAttempts"
        by (subst rk_loop.simps) (simp add: tf Let_def)
      with "1.prems" show False by simp
    qed
    note eq = rk_loop_failed [OF tf ne refl, of one_mm stepAttempts]
    have n100: "stepAttempts + 1 \<noteq> 100"
      using eq "1.prems" by (auto split: if_splits)
    have nst: "\<not> stepSize (stepping ?st2) * stepSize (stepping ?st2)
                 < stepSizeCutOff (options ?st2) * stepSizeCutOff (options ?st2)"
      using eq "1.prems" n100 by (auto split: if_splits)
    have rec: "rk_loop one_mm E getField ?st2 est (stepAttempts + 1) = Done True st' h2 n'"
      using eq "1.prems" n100 nst by simp
    show ?thesis
      by (rule "1.IH" [OF tf [symmetric] refl refl _ refl ne refl n100 nst rec]) simp
  qed
qed

text \<open>The scenario with the constant extension list.\<close>

lemma try_const:
  "tryRungeKuttaStep (const_extension c) const_field (rk_state c h tol cutoff) e h =
     (max (h * h * \<bar>c\<bar>) (1 / 10 ^ 20) \<le> tol, rk_state c h tol cutoff, h * h,
      max (h * h * \<bar>c\<bar>) (1 / 10 ^ 20))"
  by (simp add: tryRungeKuttaStep_def const_extension_def const_field_def rk_state_def set_defs
      Let_def lpNorm1_def vadd_def vsub_def)

lemma rk_state_fields:
  "stepSize (stepping (rk_state c h tol cutoff)) = h"
  "tolerance (options (rk_state c h tol cutoff)) = tol"
  "stepSizeCutOff (options (rk_state c h tol cutoff)) = cutoff"
  "navDir (stepping (rk_state c h tol cutoff)) = forward"
  "covTransport (stepping (rk_state c h tol cutoff))"
  "set_stepSize x (rk_state c h tol cutoff) = rk_state c x tol cutoff"
  by (simp_all add: rk_state_def set_stepSize_def)

lemma rk_first_const:
  "rk_first (const_extension c) const_field (rk_state c h tol cutoff)
     = (True, rk_state c h tol cutoff)"
  by (simp add: rk_first_def const_extension_def const_field_def rk_state_def set_defs Let_def)

lemma root4_81_256: "root 4 (81 / 256) = 3 / 4"
  by (rule real_root_pos_unique) (simp_all add: power_divide)

lemma scaling_81_128: "stepSizeScaling 81 128 = 3 / 4"
  by (simp add: stepSizeScaling_def root4_81_256)

text \<open>
  C3.  Let the extension methods succeed.  A trial with step size \<open>h\<close> then yields the
  estimate \<open>max (h\<^sup>2 * |k1 - k2 - k3 + k4|\<^sub>1) 10\<^sup>-\<^sup>2\<^sup>0\<close> and passes exactly when the estimate
  is at most the tolerance.  When the estimate exceeds the tolerance, the scaling factor
  is \<open>min (max 0.25 ((tolerance / (2 * estimate)) ^ 0.25)) 4\<close> (0.25 when the tolerance is
  negative), it lies in \<open>[0.25, 1)\<close>, the step size is multiplied by it, and then: on the
  100th rescaling the step size is set to \<open>navDir * 1 mm\<close> and the loop is left; otherwise
  the step is stalled when the new step size is below the cut-off, and else the trial is
  run again with the new step size.  At every pass of the loop entered with the counter 0
  the counter is at most 99, so that there are at most 100 trials.
\<close>

theorem rk_trial_estimate_and_rescaling:
  assumes "tryRungeKuttaStep E gf st e (stepSize (stepping st)) = (ok, st1, h2, est)"
    and "\<And>s kn B hh kp. fst (ext_k2 E s kn B hh kp)"
    and "\<And>s kn B hh kp. fst (ext_k3 E s kn B hh kp)"
    and "\<And>s kn B hh kp. fst (ext_k4 E s kn B hh kp)"
    and "h = stepSize (stepping st)"
    and "sd = stepData (stepping st1)"
    and "tol = tolerance (options st)"
    and "st2 = set_stepSize (h * stepSizeScaling tol est) st1"
  shows "est = max (h * h * lpNorm1 (vadd (vsub (vsub (k1 sd) (k2 sd)) (k3 sd)) (k4 sd)))
                 (1 / 10 ^ 20) \<and>
         ok = (est \<le> tol) \<and>
         (tol < est \<longrightarrow>
            (0 \<le> tol \<longrightarrow>
               stepSizeScaling tol est = min (max 0.25 (root 4 (tol / (2 * est)))) 4) \<and>
            (tol < 0 \<longrightarrow> stepSizeScaling tol est = 0.25) \<and>
            0.25 \<le> stepSizeScaling tol est \<and> stepSizeScaling tol est < 1 \<and>
            stepSize (stepping st2) = h * stepSizeScaling tol est \<and>
            rk_loop mm E gf st e n =
              (if n + 1 = 100
               then Done False (set_stepSize (nav_value (navDir (stepping st)) * mm) st2) h2 (n + 1)
               else if stepSize (stepping st2) * stepSize (stepping st2)
                       < stepSizeCutOff (options st) * stepSizeCutOff (options st)
                    then Stalled st2
                    else rk_loop mm E gf st2 est (n + 1))) \<and>
         (\<forall>st' e' n'. rk_retries mm E gf (st, e, 0) (st', e', n') \<longrightarrow> unat n' \<le> 99)"
proof (intro conjI impI allI)
  note est = try_estimate [OF assms(1) assms(2) assms(3) assms(4)]
  note f = try_fields [OF assms(1)]
  show e1: "est = max (h * h * lpNorm1 (vadd (vsub (vsub (k1 sd) (k2 sd)) (k3 sd)) (k4 sd)))
                 (1 / 10 ^ 20)"
    using est unfolding assms(5) assms(6) by blast
  show ok: "ok = (est \<le> tol)"
    using est unfolding assms(7) by blast
  have lo: "1 / 10 ^ 20 \<le> est"
    unfolding e1 by simp
  {
    assume gt: "tol < est"
    note s = scaling_of_failed [OF gt lo]
    show "0 \<le> tol \<Longrightarrow> stepSizeScaling tol est = min (max 0.25 (root 4 (tol / (2 * est)))) 4"
      by (rule s(2))
    show "tol < 0 \<Longrightarrow> stepSizeScaling tol est = 0.25"
      using lo by (simp add: stepSizeScaling_def divide_neg_pos)
    show "0.25 \<le> stepSizeScaling tol est" by (rule s(3))
    show "stepSizeScaling tol est < 1" by (rule s(4))
    show "stepSize (stepping st2) = h * stepSizeScaling tol est"
      unfolding assms(8) by (simp add: set_stepSize_def)
    have tf: "tryRungeKuttaStep E gf st e (stepSize (stepping st)) = (False, st1, h2, est)"
      using assms(1) ok gt by simp
    have ne: "stepSizeScaling (tolerance (options st1)) est \<noteq> 1"
      using s(1) f(7) assms(7) by simp
    have st2: "st2 = set_stepSize
         (stepSize (stepping st1) * stepSizeScaling (tolerance (options st1)) est) st1"
      unfolding assms(8) assms(5) assms(7) using f(1) f(7) by simp
    have o2: "options st2 = options st" "navDir (stepping st2) = navDir (stepping st)"
      unfolding assms(8) using f(2) f(7) by (simp_all add: set_stepSize_def)
    show "rk_loop mm E gf st e n =
              (if n + 1 = 100
               then Done False (set_stepSize (nav_value (navDir (stepping st)) * mm) st2) h2 (n + 1)
               else if stepSize (stepping st2) * stepSize (stepping st2)
                       < stepSizeCutOff (options st) * stepSizeCutOff (options st)
                    then Stalled st2
                    else rk_loop mm E gf st2 est (n + 1))"
      using rk_loop_failed [OF tf ne st2, of mm n] unfolding o2 .
  }
  fix st' e' n'
  assume "rk_retries mm E gf (st, e, 0) (st', e', n')"
  from rk_retries_bounded [OF this] show "unat n' \<le> 99" by simp
qed

lemma const_extension_succeeds:
  "fst (ext_k2 (const_extension c) s kn B hh kp)"
  "fst (ext_k3 (const_extension c) s kn B hh kp)"
  "fst (ext_k4 (const_extension c) s kn B hh kp)"
  by (simp_all add: const_extension_def)

theorem rk_trial_estimate_and_rescaling_witness:
  "tryRungeKuttaStep (const_extension 128) const_field (rk_state 128 1 81 (1 / 1000)) 0
     (stepSize (stepping (rk_state 128 1 81 (1 / 1000))))
     = (False, rk_state 128 1 81 (1 / 1000), 1, 128) \<and>
   stepSizeScaling 81 128 = 3 / 4 \<and>
   rk_loop 1 (const_extension 128) const_field (rk_state 128 1 81 (1 / 1000)) 0 0
     = rk_loop 1 (const_extension 128) const_field (rk_state 128 (3 / 4) 81 (1 / 1000)) 128 1"
proof -
  have t: "tryRungeKuttaStep (const_extension 128) const_field (rk_state 128 1 81 (1 / 1000)) 0
     (stepSize (stepping (rk_state 128 1 81 (1 / 1000))))
     = (False, rk_state 128 1 81 (1 / 1000), 1, 128)"
    unfolding rk_state_fields using try_const [of 128 1 81 "1 / 1000" 0] by simp
  have st2: "rk_state 128 (3 / 4) 81 (1 / 1000)
      = set_stepSize (1 * stepSizeScaling 81 128) (rk_state 128 1 81 (1 / 1000))"
    by (simp add: rk_state_fields scaling_81_128)
  from rk_trial_estimate_and_rescaling [OF t const_extension_succeeds
      rk_state_fields(1) [symmetric] refl rk_state_fields(2) [symmetric] st2, of 1 0]
  have "rk_loop 1 (const_extension 128) const_field (rk_state 128 1 81 (1 / 1000)) 0 0
     = rk_loop 1 (const_extension 128) const_field (rk_state 128 (3 / 4) 81 (1 / 1000)) 128 1"
    by (simp add: rk_state_fields)
  with t scaling_81_128 show ?thesis by blast
qed

text \<open>
  C4.  Let \<open>step\<close> come past its first Runge-Kutta point, let the loop be left because the
  trial with the step size \<open>h\<close> passed, let \<open>finalize\<close> succeed and leave the state \<open>state3\<close>
  (with the step transport matrix \<open>D\<close> where the covariance is transported), and let the
  updated direction not be the zero vector.  Then \<open>step\<close> returns \<open>h\<close>; the \<open>h2\<close> it uses is
  \<open>h * h\<close>; the position is advanced by \<open>h * dir + h\<^sup>2 / 6 * (k1 + k2 + k3)\<close>; the direction
  is \<open>dir + h / 6 * (k1 + 2 * (k2 + k3) + k4)\<close> divided by its norm, hence of unit length;
  \<open>h\<close> is added to the accumulated path; and with covariance transport the transport
  jacobian is \<open>D\<close> times the former one.
\<close>

theorem accepted_step_update:
  assumes "rk_first E gf state = (True, state1)"
    and "rk_loop mm E gf state1 0 0 = Done True state2 h2 n"
    and "h = stepSize (stepping state2)"
    and "if covTransport (stepping state2)
         then ext_finalizeD E state2 h = (True, state3, D)
         else ext_finalize E state2 h = (True, state3)"
    and "sd = stepData (stepping state3)"
    and "dir1 = vadd (dir (stepping state3))
                  (smult (h / 6) (vadd (vadd (k1 sd) (smult 2 (vadd (k2 sd) (k3 sd)))) (k4 sd)))"
    and "norm_vec dir1 \<noteq> 0"
  shows "\<exists>stateF.
           step mm E gf state = Finite (Inr h, stateF) \<and>
           h2 = h * h \<and>
           pos (stepping stateF) =
             vadd (pos (stepping state3))
               (vadd (smult h (dir (stepping state3)))
                  (smult (h * h / 6) (vadd (vadd (k1 sd) (k2 sd)) (k3 sd)))) \<and>
           dir (stepping stateF) = map (\<lambda>x. x / norm_vec dir1) dir1 \<and>
           norm_vec (dir (stepping stateF)) = 1 \<and>
           pathAccumulated (stepping stateF) = pathAccumulated (stepping state3) + h \<and>
           (covTransport (stepping state2) \<longrightarrow>
              jacTransport (stepping stateF) = map_fp (mat_mul D) (jacTransport (stepping state3)))"
proof -
  have h2: "h2 = h * h"
    using rk_loop_accepted_h2 [OF assms(2)] assms(3) by simp
  have n1: "norm_vec (map (\<lambda>x. x / norm_vec dir1) dir1) = 1"
    by (rule norm_vec_divided [OF assms(7)])
  have s: "step mm E gf state = rk_after E state2 h2"
    by (simp add: step_def assms(1) assms(2))
  show ?thesis
  proof (cases "covTransport (stepping state2)")
    case True
    with assms(4) have f: "ext_finalizeD E state2 h = (True, state3, D)" by simp
    show ?thesis
      unfolding s using True f assms(3) assms(5) assms(6) assms(7) h2 n1
      by (simp add: rk_after_def rk_update_def Let_def)
  next
    case False
    with assms(4) have f: "ext_finalize E state2 h = (True, state3)" by simp
    show ?thesis
      unfolding s using False f assms(3) assms(5) assms(6) assms(7) h2 n1
      by (simp add: rk_after_def rk_update_def Let_def)
  qed
qed

lemma sqrt_289: "sqrt 289 = 17"
  by (rule real_sqrt_unique) simp_all

lemma loop_const_accepted:
  "rk_loop 1 (const_extension 128) const_field (rk_state 128 1 81 (1 / 1000)) 0 0
     = Done True (rk_state 128 (3 / 4) 81 (1 / 1000)) (9 / 16) 1"
proof -
  have t1: "tryRungeKuttaStep (const_extension 128) const_field (rk_state 128 1 81 (1 / 1000)) 0
      (stepSize (stepping (rk_state 128 1 81 (1 / 1000))))
      = (False, rk_state 128 1 81 (1 / 1000), 1, 128)"
    unfolding rk_state_fields using try_const [of 128 1 81 "1 / 1000" 0] by simp
  have t2: "tryRungeKuttaStep (const_extension 128) const_field (rk_state 128 (3 / 4) 81 (1 / 1000))
      128 (stepSize (stepping (rk_state 128 (3 / 4) 81 (1 / 1000))))
      = (True, rk_state 128 (3 / 4) 81 (1 / 1000), 9 / 16, 72)"
    unfolding rk_state_fields using try_const [of 128 "3 / 4" 81 "1 / 1000" 128] by simp
  have ne: "stepSizeScaling (tolerance (options (rk_state 128 1 81 (1 / 1000)))) 128 \<noteq> 1"
    by (simp add: rk_state_fields scaling_81_128)
  from rk_loop_failed [OF t1 ne refl, of 1 0]
  have "rk_loop 1 (const_extension 128) const_field (rk_state 128 1 81 (1 / 1000)) 0 0
     = rk_loop 1 (const_extension 128) const_field (rk_state 128 (3 / 4) 81 (1 / 1000)) 128 1"
    by (simp add: rk_state_fields scaling_81_128)
  also have "\<dots> = Done True (rk_state 128 (3 / 4) 81 (1 / 1000)) (9 / 16) 1"
    by (rule rk_loop_accepted [OF t2])
  finally show ?thesis .
qed

theorem accepted_step_update_witness:
  "\<exists>stateF.
     step 1 (const_extension 128) const_field (rk_state 128 1 81 (1 / 1000))
       = Finite (Inr (3 / 4), stateF) \<and>
     pos (stepping stateF) = [3 / 4, 0, 0] \<and>
     dir (stepping stateF) = [1, 0, 0] \<and>
     norm_vec (dir (stepping stateF)) = 1 \<and>
     pathAccumulated (stepping stateF) = 3 / 4 \<and>
     jacTransport (stepping stateF) = Finite (mat_mul (Identity 8) (Identity 8))"
proof -
  let ?s = "rk_state 128 (3 / 4) 81 (1 / 1000)"
  have h: "3 / 4 = stepSize (stepping ?s)"
    by (simp add: rk_state_fields)
  have f: "if covTransport (stepping ?s)
           then ext_finalizeD (const_extension 128) ?s (3 / 4) = (True, ?s, Identity 8)
           else ext_finalize (const_extension 128) ?s (3 / 4) = (True, ?s)"
    by (simp add: rk_state_fields const_extension_def)
  have d: "[17, 0, 0] = vadd (dir (stepping ?s))
             (smult (3 / 4 / 6)
               (vadd (vadd (k1 (stepData (stepping ?s)))
                  (smult 2 (vadd (k2 (stepData (stepping ?s))) (k3 (stepData (stepping ?s))))))
                  (k4 (stepData (stepping ?s)))))"
    by (simp add: rk_state_def vadd_def smult_def)
  have n: "norm_vec [17, 0, 0] = 17"
    by (simp add: norm_vec_def dot_def sqrt_289)
  then have nz: "norm_vec [17, 0, 0] \<noteq> 0"
    by simp
  from accepted_step_update [OF rk_first_const loop_const_accepted h f refl d nz]
  show ?thesis
    unfolding n by (simp add: rk_state_def vadd_def smult_def)
qed

text \<open>The passes of the loop leave position, direction, path length and options alone.\<close>

lemma rk_retries_frame:
  assumes "rk_retries mm E gf a b"
  shows "pos (stepping (fst b)) = pos (stepping (fst a)) \<and>
         dir (stepping (fst b)) = dir (stepping (fst a)) \<and>
         pathAccumulated (stepping (fst b)) = pathAccumulated (stepping (fst a)) \<and>
         options (fst b) = options (fst a)"
  using assms
proof (induction rule: rk_retries.induct)
  case (rk_entry a)
  show ?case by simp
next
  case (rk_retry a state error_estimate stepAttempts state1 h2 est state2)
  note f = try_fields [OF rk_retry.hyps(2)]
  from rk_retry.IH f(3) f(4) f(6) f(7) show ?case
    unfolding rk_retry.hyps(4) by (simp add: set_stepSize_def)
qed

lemma rk_first_frame:
  assumes "rk_first E gf state = (ok, state1)"
  shows "pos (stepping state1) = pos (stepping state) \<and>
         dir (stepping state1) = dir (stepping state) \<and>
         pathAccumulated (stepping state1) = pathAccumulated (stepping state) \<and>
         options state1 = options state"
  using assms
  by (auto simp add: rk_first_def Let_def set_defs split: prod.splits if_splits)

text \<open>What follows the loop returns the step taken or \<open>StepInvalid\<close>, never \<open>StepSizeStalled\<close>.\<close>

lemma map_fp_Inr_not_Inl: "map_fp (Pair (Inr h)) r \<noteq> Finite (Inl e, s)"
  by (cases r) simp_all

lemma rk_after_not_stalled: "rk_after E st h2 \<noteq> Finite (Inl StepSizeStalled, s)"
  by (simp add: rk_after_def Let_def map_fp_Inr_not_Inl split: prod.splits)

text \<open>The loop with the constant extension list and the tolerance zero: every trial fails.\<close>

lemma scaling_tol_zero: "est \<noteq> 0 \<Longrightarrow> stepSizeScaling 0 est = 1 / 4"
  by (simp add: stepSizeScaling_def)

lemma const_retry:
  assumes "rk_retries 1 (const_extension 1) const_field a (rk_state 1 h 0 (1 / 1000), e, n)"
    and "1 / 250 \<le> h"
    and "n + 1 \<noteq> 100"
  shows "rk_retries 1 (const_extension 1) const_field a (rk_state 1 (h / 4) 0 (1 / 1000), h * h, n + 1)"
proof -
  have h0: "0 \<le> h" using assms(2) by simp
  have "(1 / 250) * (1 / 250) \<le> h * h"
    by (rule mult_mono) (use assms(2) h0 in simp_all)
  then have hh: "1 / 62500 \<le> h * h"
    by simp
  then have m: "max (h * h * \<bar>1\<bar>) (1 / 10 ^ 20) = h * h"
    by simp
  have t: "tryRungeKuttaStep (const_extension 1) const_field (rk_state 1 h 0 (1 / 1000)) e
      (stepSize (stepping (rk_state 1 h 0 (1 / 1000))))
      = (False, rk_state 1 h 0 (1 / 1000), h * h, h * h)"
    unfolding rk_state_fields try_const m using hh by simp
  have s: "stepSizeScaling (tolerance (options (rk_state 1 h 0 (1 / 1000)))) (h * h) = 1 / 4"
    unfolding rk_state_fields using hh by (intro scaling_tol_zero) auto
  have ne: "stepSizeScaling (tolerance (options (rk_state 1 h 0 (1 / 1000)))) (h * h) \<noteq> 1"
    unfolding s by simp
  have st2: "rk_state 1 (h / 4) 0 (1 / 1000)
      = set_stepSize (stepSize (stepping (rk_state 1 h 0 (1 / 1000)))
          * stepSizeScaling (tolerance (options (rk_state 1 h 0 (1 / 1000)))) (h * h))
          (rk_state 1 h 0 (1 / 1000))"
    unfolding s by (simp add: rk_state_fields)
  have h4: "1 / 1000 \<le> h / 4" using assms(2) by simp
  have ns: "\<not> stepSize (stepping (rk_state 1 (h / 4) 0 (1 / 1000)))
              * stepSize (stepping (rk_state 1 (h / 4) 0 (1 / 1000)))
            < stepSizeCutOff (options (rk_state 1 (h / 4) 0 (1 / 1000)))
              * stepSizeCutOff (options (rk_state 1 (h / 4) 0 (1 / 1000)))"
  proof -
    have "(1 / 1000) * (1 / 1000) \<le> (h / 4) * (h / 4)"
      by (rule mult_mono) (use h4 h0 in simp_all)
    then show ?thesis
      unfolding rk_state_fields by (simp only: not_less)
  qed
  show ?thesis
    by (rule rk_retry [OF assms(1) t ne st2 assms(3) ns])
qed

lemma const_retries:
  "m \<le> 98 \<Longrightarrow>
   rk_retries 1 (const_extension 1) const_field (rk_state 1 (4 ^ 100 / 2000) 0 (1 / 1000), 0, 0)
     (rk_state 1 (4 ^ (99 - m) / 2000) 0 (1 / 1000),
      (4 ^ (100 - m) / 2000) * (4 ^ (100 - m) / 2000), of_nat (Suc m))"
proof (induction m)
  case 0
  have "rk_retries 1 (const_extension 1) const_field (rk_state 1 (4 ^ 100 / 2000) 0 (1 / 1000), 0, 0)
     (rk_state 1 (4 ^ 100 / 2000 / 4) 0 (1 / 1000),
      (4 ^ 100 / 2000) * (4 ^ 100 / 2000), 0 + 1)"
    by (rule const_retry [OF rk_entry]) simp_all
  then show ?case by simp
next
  case (Suc m)
  then have m: "m \<le> 98" and m1: "Suc m \<le> 98" by simp_all
  have e1: "99 - m = Suc (99 - Suc m)" and e2: "100 - Suc m = 99 - m"
    using m1 by simp_all
  have big: "1 / 250 \<le> (4 :: real) ^ (99 - m) / 2000"
  proof -
    have "(4 :: real) ^ 2 \<le> 4 ^ (99 - m)"
      using m1 by (intro power_increasing) simp_all
    then show ?thesis by simp
  qed
  have n: "(of_nat (Suc m) :: 32 word) + 1 \<noteq> 100"
  proof
    define k where "k = Suc (Suc m)"
    have k: "k \<le> 99" unfolding k_def using m1 by simp
    assume "(of_nat (Suc m) :: 32 word) + 1 = 100"
    then have "(of_nat k :: 32 word) = 100" unfolding k_def by simp
    then have "unat (of_nat k :: 32 word) = 100" by simp
    then have "k mod 4294967296 = 100" by (simp add: unat_of_nat)
    with k show False by simp
  qed
  from const_retry [OF Suc.IH [OF m] big n]
  show ?case
    unfolding e2 by (simp add: e1)
qed

lemma const_hundredth:
  "rk_loop 1 (const_extension 1) const_field (rk_state 1 (4 ^ 100 / 2000) 0 (1 / 1000)) 0 0
     = Done False (rk_state 1 1 0 (1 / 1000)) (1 / 250000) 100"
proof -
  have r: "rk_retries 1 (const_extension 1) const_field
      (rk_state 1 (4 ^ 100 / 2000) 0 (1 / 1000), 0, 0)
      (rk_state 1 (1 / 500) 0 (1 / 1000), 1 / 15625, 99)"
    using const_retries [of 98] by simp
  have t: "tryRungeKuttaStep (const_extension 1) const_field (rk_state 1 (1 / 500) 0 (1 / 1000))
      (1 / 15625) (stepSize (stepping (rk_state 1 (1 / 500) 0 (1 / 1000))))
      = (False, rk_state 1 (1 / 500) 0 (1 / 1000), 1 / 250000, 1 / 250000)"
    unfolding rk_state_fields try_const by simp
  have s: "stepSizeScaling (tolerance (options (rk_state 1 (1 / 500) 0 (1 / 1000)))) (1 / 250000)
      = 1 / 4"
    unfolding rk_state_fields by (rule scaling_tol_zero) simp
  have ne: "stepSizeScaling (tolerance (options (rk_state 1 (1 / 500) 0 (1 / 1000)))) (1 / 250000)
      \<noteq> 1"
    unfolding s by simp
  have "rk_loop 1 (const_extension 1) const_field (rk_state 1 (4 ^ 100 / 2000) 0 (1 / 1000)) 0 0
     = rk_loop 1 (const_extension 1) const_field (rk_state 1 (1 / 500) 0 (1 / 1000)) (1 / 15625) 99"
    using rk_retries_loop [OF r] by simp
  also have "\<dots> = Done False (rk_state 1 1 0 (1 / 1000)) (1 / 250000) 100"
    using rk_loop_failed [OF t ne refl, of 1 99] unfolding s
    by (simp add: rk_state_fields nav_value_def)
  finally show ?thesis .
qed

text \<open>
  C5, amended.  Let \<open>step\<close> come past its first Runge-Kutta point and let the loop come to a
  pass whose trial returns false and whose rescaled step size \<open>hs\<close> has \<open>hs\<^sup>2\<close> below the
  square of the cut-off.  If this is not the 100th rescaling, \<open>step\<close> returns the error
  \<open>StepSizeStalled\<close> as its result; the state it leaves has the step size \<open>hs\<close> and the
  position, direction and accumulated path of the state the call began with.  If it is the
  100th rescaling, the step size is set to \<open>navDir * 1_mm\<close> and the loop is left before the
  cut-off is tested: \<open>step\<close> does not return \<open>StepSizeStalled\<close>, its result is that of
  \<open>finalize\<close> and the update run with this step size.
\<close>

theorem stalled_step_returns_error:
  assumes "rk_first E gf state = (True, state1)"
    and "rk_retries mm E gf (state1, 0, 0) (st, e, n)"
    and "tryRungeKuttaStep E gf st e (stepSize (stepping st)) = (False, st1, h2, est)"
    and "stepSizeScaling (tolerance (options st1)) est \<noteq> 1"
    and "hs = stepSize (stepping st1) * stepSizeScaling (tolerance (options st1)) est"
    and "hs * hs < stepSizeCutOff (options st1) * stepSizeCutOff (options st1)"
  shows "(n + 1 \<noteq> 100 \<longrightarrow>
            step mm E gf state = Finite (Inl StepSizeStalled, set_stepSize hs st1) \<and>
            stepSize (stepping (set_stepSize hs st1)) = hs \<and>
            pos (stepping (set_stepSize hs st1)) = pos (stepping state) \<and>
            dir (stepping (set_stepSize hs st1)) = dir (stepping state) \<and>
            pathAccumulated (stepping (set_stepSize hs st1)) = pathAccumulated (stepping state)) \<and>
         (n + 1 = 100 \<longrightarrow>
            step mm E gf state =
              rk_after E (set_stepSize (nav_value (navDir (stepping st1)) * mm) st1) h2 \<and>
            (\<forall>s. step mm E gf state \<noteq> Finite (Inl StepSizeStalled, s)))"
proof (intro conjI impI)
  let ?st2 = "set_stepSize hs st1"
  have st2: "?st2 = set_stepSize
      (stepSize (stepping st1) * stepSizeScaling (tolerance (options st1)) est) st1"
    unfolding assms(5) ..
  have stalled: "stepSize (stepping ?st2) * stepSize (stepping ?st2)
                   < stepSizeCutOff (options ?st2) * stepSizeCutOff (options ?st2)"
    using assms(6) by (simp add: set_stepSize_def)
  have r: "rk_loop mm E gf state1 0 0 = rk_loop mm E gf st e n"
    using rk_retries_loop [OF assms(2)] by simp
  note f1 = rk_first_frame [OF assms(1)]
  note f2 = rk_retries_frame [OF assms(2)]
  note f3 = try_fields [OF assms(3)]
  {
    assume n: "n + 1 \<noteq> 100"
    have "rk_loop mm E gf st e n = Stalled ?st2"
      using rk_loop_failed [OF assms(3) assms(4) st2, of mm n] n stalled by simp
    with r have l: "rk_loop mm E gf state1 0 0 = Stalled ?st2" by simp
    show "step mm E gf state = Finite (Inl StepSizeStalled, ?st2)"
      by (simp add: step_def assms(1) l)
    show "stepSize (stepping ?st2) = hs"
      by (simp add: set_stepSize_def)
    show "pos (stepping ?st2) = pos (stepping state)"
      using f1 f2 f3(3) f3(4) f3(6) by (simp add: set_stepSize_def)
    show "dir (stepping ?st2) = dir (stepping state)"
      using f1 f2 f3(3) f3(4) f3(6) by (simp add: set_stepSize_def)
    show "pathAccumulated (stepping ?st2) = pathAccumulated (stepping state)"
      using f1 f2 f3(3) f3(4) f3(6) by (simp add: set_stepSize_def)
  }
  {
    assume n: "n + 1 = 100"
    let ?st3 = "set_stepSize (nav_value (navDir (stepping st1)) * mm) st1"
    have e: "set_stepSize (nav_value (navDir (stepping ?st2)) * mm) ?st2 = ?st3"
      by (simp add: set_stepSize_def)
    have "rk_loop mm E gf st e n = Done False ?st3 h2 (n + 1)"
      using rk_loop_failed [OF assms(3) assms(4) st2, of mm n] n unfolding e by simp
    with r have l: "rk_loop mm E gf state1 0 0 = Done False ?st3 h2 (n + 1)" by simp
    show s: "step mm E gf state = rk_after E ?st3 h2"
      by (simp add: step_def assms(1) l)
    show "\<forall>s. step mm E gf state \<noteq> Finite (Inl StepSizeStalled, s)"
      unfolding s by (simp add: rk_after_not_stalled)
  }
qed


theorem stalled_step_returns_error_witness:
  "step 1 (const_extension 128) const_field (rk_state 128 1 81 1)
     = Finite (Inl StepSizeStalled, rk_state 128 (3 / 4) 81 1) \<and>
   step 1 (const_extension 1) const_field (rk_state 1 (4 ^ 100 / 2000) 0 (1 / 1000))
     = rk_after (const_extension 1) (rk_state 1 1 0 (1 / 1000)) (1 / 250000)"
proof (rule conjI)
  have t: "tryRungeKuttaStep (const_extension 128) const_field (rk_state 128 1 81 1) 0
      (stepSize (stepping (rk_state 128 1 81 1)))
      = (False, rk_state 128 1 81 1, 1, 128)"
    unfolding rk_state_fields using try_const [of 128 1 81 1 0] by simp
  have ne: "stepSizeScaling (tolerance (options (rk_state 128 1 81 1))) 128 \<noteq> 1"
    by (simp add: rk_state_fields scaling_81_128)
  have n: "(0 :: 32 word) + 1 \<noteq> 100"
    by simp
  have hs: "3 / 4 = stepSize (stepping (rk_state 128 1 81 1))
      * stepSizeScaling (tolerance (options (rk_state 128 1 81 1))) 128"
    by (simp add: rk_state_fields scaling_81_128)
  have c: "(3 / 4 :: real) * (3 / 4)
      < stepSizeCutOff (options (rk_state 128 1 81 1)) * stepSizeCutOff (options (rk_state 128 1 81 1))"
    by (simp add: rk_state_fields)
  from stalled_step_returns_error [OF rk_first_const rk_entry t ne hs c] n
  show "step 1 (const_extension 128) const_field (rk_state 128 1 81 1)
     = Finite (Inl StepSizeStalled, rk_state 128 (3 / 4) 81 1)"
    by (simp add: rk_state_fields)
next
  have r: "rk_retries 1 (const_extension 1) const_field
      (rk_state 1 (4 ^ 100 / 2000) 0 (1 / 1000), 0, 0)
      (rk_state 1 (1 / 500) 0 (1 / 1000), 1 / 15625, 99)"
    using const_retries [of 98] by simp
  have t: "tryRungeKuttaStep (const_extension 1) const_field (rk_state 1 (1 / 500) 0 (1 / 1000))
      (1 / 15625) (stepSize (stepping (rk_state 1 (1 / 500) 0 (1 / 1000))))
      = (False, rk_state 1 (1 / 500) 0 (1 / 1000), 1 / 250000, 1 / 250000)"
    unfolding rk_state_fields try_const by simp
  have s: "stepSizeScaling (tolerance (options (rk_state 1 (1 / 500) 0 (1 / 1000)))) (1 / 250000)
      = 1 / 4"
    unfolding rk_state_fields by (rule scaling_tol_zero) simp
  have ne: "stepSizeScaling (tolerance (options (rk_state 1 (1 / 500) 0 (1 / 1000)))) (1 / 250000)
      \<noteq> 1"
    unfolding s by simp
  have n: "(99 :: 32 word) + 1 = 100"
    by simp
  have hs: "1 / 2000 = stepSize (stepping (rk_state 1 (1 / 500) 0 (1 / 1000)))
      * stepSizeScaling (tolerance (options (rk_state 1 (1 / 500) 0 (1 / 1000)))) (1 / 250000)"
    unfolding s by (simp add: rk_state_fields)
  have c: "(1 / 2000 :: real) * (1 / 2000)
      < stepSizeCutOff (options (rk_state 1 (1 / 500) 0 (1 / 1000)))
        * stepSizeCutOff (options (rk_state 1 (1 / 500) 0 (1 / 1000)))"
    by (simp add: rk_state_fields)
  have f: "set_stepSize (nav_value (navDir (stepping (rk_state 1 (1 / 500) 0 (1 / 1000)))) * 1)
      (rk_state 1 (1 / 500) 0 (1 / 1000)) = rk_state 1 1 0 (1 / 1000)"
    by (simp add: rk_state_fields nav_value_def)
  from stalled_step_returns_error [OF rk_first_const r t ne hs c] n
  have "step 1 (const_extension 1) const_field (rk_state 1 (4 ^ 100 / 2000) 0 (1 / 1000))
     = rk_after (const_extension 1)
         (set_stepSize (nav_value (navDir (stepping (rk_state 1 (1 / 500) 0 (1 / 1000)))) * 1)
            (rk_state 1 (1 / 500) 0 (1 / 1000))) (1 / 250000)"
    by blast
  then show "step 1 (const_extension 1) const_field (rk_state 1 (4 ^ 100 / 2000) 0 (1 / 1000))
     = rk_after (const_extension 1) (rk_state 1 1 0 (1 / 1000)) (1 / 250000)"
    unfolding f .
qed

text \<open>
  C5 as stated fails.  With the tolerance zero every trial fails and each rescaling divides
  the step size by four.  From the step size \<open>4\<^sup>1\<^sup>0\<^sup>0 / 2000\<close> the loop comes, at the counter
  99, to the step size \<open>1 / 500\<close>; the trial fails, the rescaled step size \<open>1 / 2000\<close> is below
  the cut-off \<open>1 / 1000\<close>, but this is the 100th rescaling: the step size is set to 1 mm
  unchecked and \<open>step\<close> returns 1 as the step taken, not the error.
\<close>

theorem hundredth_attempt_counterexample:
  "rk_first (const_extension 1) const_field (rk_state 1 (4 ^ 100 / 2000) 0 (1 / 1000))
     = (True, rk_state 1 (4 ^ 100 / 2000) 0 (1 / 1000)) \<and>
   rk_retries 1 (const_extension 1) const_field
     (rk_state 1 (4 ^ 100 / 2000) 0 (1 / 1000), 0, 0)
     (rk_state 1 (1 / 500) 0 (1 / 1000), 1 / 15625, 99) \<and>
   tryRungeKuttaStep (const_extension 1) const_field (rk_state 1 (1 / 500) 0 (1 / 1000))
     (1 / 15625) (stepSize (stepping (rk_state 1 (1 / 500) 0 (1 / 1000))))
     = (False, rk_state 1 (1 / 500) 0 (1 / 1000), 1 / 250000, 1 / 250000) \<and>
   stepSizeScaling (tolerance (options (rk_state 1 (1 / 500) 0 (1 / 1000)))) (1 / 250000) = 1 / 4 \<and>
   (1 / 500 * (1 / 4)) * (1 / 500 * (1 / 4))
     < stepSizeCutOff (options (rk_state 1 (1 / 500) 0 (1 / 1000)))
       * stepSizeCutOff (options (rk_state 1 (1 / 500) 0 (1 / 1000))) \<and>
   map_fp fst (step 1 (const_extension 1) const_field (rk_state 1 (4 ^ 100 / 2000) 0 (1 / 1000)))
     = Finite (Inr 1)"
proof (intro conjI)
  show "rk_first (const_extension 1) const_field (rk_state 1 (4 ^ 100 / 2000) 0 (1 / 1000))
     = (True, rk_state 1 (4 ^ 100 / 2000) 0 (1 / 1000))"
    by (rule rk_first_const)
  show "rk_retries 1 (const_extension 1) const_field
      (rk_state 1 (4 ^ 100 / 2000) 0 (1 / 1000), 0, 0)
      (rk_state 1 (1 / 500) 0 (1 / 1000), 1 / 15625, 99)"
    using const_retries [of 98] by simp
  show "tryRungeKuttaStep (const_extension 1) const_field (rk_state 1 (1 / 500) 0 (1 / 1000))
      (1 / 15625) (stepSize (stepping (rk_state 1 (1 / 500) 0 (1 / 1000))))
      = (False, rk_state 1 (1 / 500) 0 (1 / 1000), 1 / 250000, 1 / 250000)"
    unfolding rk_state_fields try_const by simp
  show "stepSizeScaling (tolerance (options (rk_state 1 (1 / 500) 0 (1 / 1000)))) (1 / 250000)
      = 1 / 4"
    unfolding rk_state_fields by (rule scaling_tol_zero) simp
  show "(1 / 500 * (1 / 4)) * (1 / 500 * (1 / 4))
     < stepSizeCutOff (options (rk_state 1 (1 / 500) 0 (1 / 1000)))
       * stepSizeCutOff (options (rk_state 1 (1 / 500) 0 (1 / 1000)))"
    unfolding rk_state_fields by simp
  show "map_fp fst (step 1 (const_extension 1) const_field (rk_state 1 (4 ^ 100 / 2000) 0 (1 / 1000)))
     = Finite (Inr 1)"
  proof -
    have s: "step 1 (const_extension 1) const_field (rk_state 1 (4 ^ 100 / 2000) 0 (1 / 1000))
        = rk_after (const_extension 1) (rk_state 1 1 0 (1 / 1000)) (1 / 250000)"
      by (simp only: step_def rk_first_const const_hundredth prod.case rk_exit.case
          not_True_eq_False if_False)
    show ?thesis
      unfolding s
      by (simp add: rk_after_def rk_update_def rk_state_def const_extension_def Let_def
          norm_vec_def dot_def vadd_def smult_def)
  qed
qed

end
